theory Spec2Isabelle
  imports Complex_Main "HOL-Library.AList"
begin

section \<open>Python values, errors and dictionaries\<close>

text \<open>
  The module \<^verbatim>\<open>robotdictionary.py\<close> builds nested Python dictionaries out of the objects of
  a Blender scene. Values are modelled by one datatype. A dictionary is an association list
  in insertion order whose keys are values themselves; an entry is updated in place when the
  key is already there. Floats are idealised as reals; no statement below depends on a
  float's value.
\<close>

datatype pyval =
    PNone
  | PBool bool
  | PInt int
  | PFloat real
  | PStr string
  | PList "pyval list"
  | PTuple "pyval list"
  | PIdArray "pyval list"
  | PDict "(pyval \<times> pyval) list"

type_synonym pydict = "(pyval \<times> pyval) list"

datatype error =
    KeyError
  | TypeError
  | AttributeError
  | IndexError
  | ValueError
  | NameError string
  | UnboundLocalError string
  | Exception string

definition ebind :: "error + 'a \<Rightarrow> ('a \<Rightarrow> error + 'b) \<Rightarrow> error + 'b" where
  "ebind m f = (case m of Inl e \<Rightarrow> Inl e | Inr x \<Rightarrow> f x)"

fun efold :: "('a \<Rightarrow> 's \<Rightarrow> error + 's) \<Rightarrow> 'a list \<Rightarrow> 's \<Rightarrow> error + 's" where
  "efold f [] s = Inr s"
| "efold f (x # xs) s = ebind (f x s) (efold f xs)"

text \<open>
  Two values are the same dictionary key when they are equal and hash alike: numbers by
  their value, whether \<^verbatim>\<open>bool\<close>, \<^verbatim>\<open>int\<close> or \<^verbatim>\<open>float\<close>, tuples component by
  component, strings and \<^verbatim>\<open>None\<close> as themselves. \<open>key_norm\<close> maps the keys that are the
  same to one value. Lists, dictionaries and the host's arrays are not hashable.
\<close>

fun key_norm :: "pyval \<Rightarrow> pyval" where
  "key_norm (PBool b) = PFloat (of_bool b)"
| "key_norm (PInt i) = PFloat (of_int i)"
| "key_norm (PTuple xs) = PTuple (map key_norm xs)"
| "key_norm v = v"

fun hashable :: "pyval \<Rightarrow> bool" where
  "hashable (PList xs) = False"
| "hashable (PIdArray xs) = False"
| "hashable (PDict d) = False"
| "hashable (PTuple xs) = list_all hashable xs"
| "hashable v = True"

definition dict_lookup :: "pydict \<Rightarrow> pyval \<Rightarrow> pyval option" where
  "dict_lookup d k = map_of (map (\<lambda>kv. (key_norm (fst kv), snd kv)) d) (key_norm k)"

text \<open>The entry that has the key keeps its key object and gets the new value.\<close>

fun dict_update :: "pyval \<Rightarrow> pyval \<Rightarrow> pydict \<Rightarrow> pydict" where
  "dict_update k v [] = [(k, v)]"
| "dict_update k v (kv # d) =
     (if key_norm (fst kv) = key_norm k then (fst kv, v) # d else kv # dict_update k v d)"

definition dict_delete :: "pyval \<Rightarrow> pydict \<Rightarrow> pydict" where
  "dict_delete k d = filter (\<lambda>kv. key_norm (fst kv) \<noteq> key_norm k) d"

text \<open>An index into a sequence is an \<^verbatim>\<open>int\<close> or a \<^verbatim>\<open>bool\<close>; negative ones count from the end.\<close>

definition int_index :: "pyval \<Rightarrow> int option" where
  "int_index k = (case k of PInt i \<Rightarrow> Some i | PBool b \<Rightarrow> Some (of_bool b) | _ \<Rightarrow> None)"

definition seq_pos :: "nat \<Rightarrow> int \<Rightarrow> nat option" where
  "seq_pos n i =
     (let j = (if i < 0 then int n + i else i) in
      if 0 \<le> j \<and> j < int n then Some (nat j) else None)"

definition seq_at :: "pyval list \<Rightarrow> pyval \<Rightarrow> error + pyval" where
  "seq_at xs k =
     (case int_index k of
        None \<Rightarrow> Inl TypeError
      | Some i \<Rightarrow> (case seq_pos (length xs) i of None \<Rightarrow> Inl IndexError | Some j \<Rightarrow> Inr (xs ! j)))"

text \<open>\<^verbatim>\<open>c[k]\<close> and \<^verbatim>\<open>c[k] = v\<close> for a key or index that is a value.\<close>

definition py_getitem :: "pyval \<Rightarrow> pyval \<Rightarrow> error + pyval" where
  "py_getitem c k =
     (case c of
        PDict d \<Rightarrow>
          (if hashable k then
             (case dict_lookup d k of None \<Rightarrow> Inl KeyError | Some v \<Rightarrow> Inr v)
           else Inl TypeError)
      | PList xs \<Rightarrow> seq_at xs k
      | PTuple xs \<Rightarrow> seq_at xs k
      | PIdArray xs \<Rightarrow> seq_at xs k
      | PStr s \<Rightarrow> seq_at (map (\<lambda>ch. PStr [ch]) s) k
      | _ \<Rightarrow> Inl TypeError)"

definition py_setitem :: "pyval \<Rightarrow> pyval \<Rightarrow> pyval \<Rightarrow> error + pyval" where
  "py_setitem c k v =
     (case c of
        PDict d \<Rightarrow> (if hashable k then Inr (PDict (dict_update k v d)) else Inl TypeError)
      | PList xs \<Rightarrow>
          (case int_index k of
             None \<Rightarrow> Inl TypeError
           | Some i \<Rightarrow>
               (case seq_pos (length xs) i of
                  None \<Rightarrow> Inl IndexError
                | Some j \<Rightarrow> Inr (PList (xs[j := v]))))
      | _ \<Rightarrow> Inl TypeError)"

text \<open>The same with a string as key, as in \<^verbatim>\<open>d['name']\<close>.\<close>

definition getitem :: "pyval \<Rightarrow> string \<Rightarrow> error + pyval" where
  "getitem d k = py_getitem d (PStr k)"

definition setitem :: "pyval \<Rightarrow> string \<Rightarrow> pyval \<Rightarrow> error + pyval" where
  "setitem d k v = py_setitem d (PStr k) v"

definition dget :: "pydict \<Rightarrow> string \<Rightarrow> pyval option" where
  "dget d k = dict_lookup d (PStr k)"

definition dset :: "string \<Rightarrow> pyval \<Rightarrow> pydict \<Rightarrow> pydict" where
  "dset k v d = dict_update (PStr k) v d"

definition has_key :: "pydict \<Rightarrow> string \<Rightarrow> bool" where
  "has_key d k = (dget d k \<noteq> None)"

text \<open>Python truthiness, as far as the values above go.\<close>

fun truthy :: "pyval \<Rightarrow> bool" where
  "truthy PNone = False"
| "truthy (PBool b) = b"
| "truthy (PInt i) = (i \<noteq> 0)"
| "truthy (PFloat r) = (r \<noteq> 0)"
| "truthy (PStr s) = (s \<noteq> [])"
| "truthy (PList xs) = (xs \<noteq> [])"
| "truthy (PTuple xs) = (xs \<noteq> [])"
| "truthy (PIdArray xs) = (xs \<noteq> [])"
| "truthy (PDict al) = (al \<noteq> [])"

section \<open>String operations\<close>

primrec startswith :: "string \<Rightarrow> string \<Rightarrow> bool" where
  "startswith s [] = True"
| "startswith s (c # cs) = (case s of [] \<Rightarrow> False | d # ds \<Rightarrow> d = c \<and> startswith ds cs)"

text \<open>\<^verbatim>\<open>sub in s\<close> on strings: \<open>sub\<close> occurs in \<open>s\<close> as a contiguous piece.\<close>

fun str_in :: "string \<Rightarrow> string \<Rightarrow> bool" where
  "str_in sub [] = (sub = [])"
| "str_in sub (c # cs) = (startswith (c # cs) sub \<or> str_in sub cs)"

text \<open>\<^verbatim>\<open>s.split(sep)\<close> for a separator of one character.\<close>

fun split_str :: "char \<Rightarrow> string \<Rightarrow> string list" where
  "split_str sep [] = [[]]"
| "split_str sep (c # cs) =
     (if c = sep then [] # split_str sep cs
      else (case split_str sep cs of [] \<Rightarrow> [[c]] | w # ws \<Rightarrow> (c # w) # ws))"

text \<open>\<^verbatim>\<open>s.replace(old, new)\<close>: every occurrence, left to right, without overlap.\<close>

function replace_str :: "string \<Rightarrow> string \<Rightarrow> string \<Rightarrow> string" where
  "replace_str old new s =
     (if old = [] then new @ concat (map (\<lambda>c. c # new) s)
      else if startswith s old then new @ replace_str old new (drop (length old) s)
      else (case s of [] \<Rightarrow> [] | c # cs \<Rightarrow> c # replace_str old new cs))"
  by pat_completeness auto
termination
proof (relation "measure (\<lambda>(old, new, s). length s)")
  show "wf (measure (\<lambda>(old, new, s). length s))" by simp
next
  fix old new s :: string
  have len: "startswith t p \<Longrightarrow> length p \<le> length t" for t p :: string
    by (induction p arbitrary: t) (auto split: list.splits)
  assume "old \<noteq> []" and "startswith s old"
  then have "0 < length old" and "length old \<le> length s"
    using len by simp_all
  then have "length s - length old < length s"
    by arith
  then show "((old, new, drop (length old) s), (old, new, s)) \<in> measure (\<lambda>(old, new, s). length s)"
    by simp
next
  fix old new s :: string and c cs
  assume "s = c # cs"
  then show "((old, new, cs), (old, new, s)) \<in> measure (\<lambda>(old, new, s). length s)"
    by simp
qed

declare replace_str.simps [simp del]

text \<open>\<^verbatim>\<open>os.path.join(a, b)\<close> with POSIX separators: an absolute \<open>b\<close> replaces \<open>a\<close>.\<close>

definition os_path_join :: "string \<Rightarrow> string \<Rightarrow> string" where
  "os_path_join a b =
     (if startswith b ''/'' then b
      else if a = [] \<or> last a = CHR ''/'' then a @ b
      else a @ ''/'' @ b)"

text \<open>\<^verbatim>\<open>s.lower()\<close> on ASCII letters.\<close>

definition lower_char :: "char \<Rightarrow> char" where
  "lower_char c =
     (if (65::nat) \<le> of_char c \<and> of_char c \<le> (90::nat) then char_of (of_char c + (32::nat)) else c)"

definition lower :: "string \<Rightarrow> string" where
  "lower s = map lower_char s"

text \<open>\<^verbatim>\<open>int(s, 2)\<close> on a string of binary digits; the empty string is refused.\<close>

definition int_base2 :: "string \<Rightarrow> error + int" where
  "int_base2 s =
     (if s = [] \<or> (\<exists>c \<in> set s. c \<noteq> CHR ''0'' \<and> c \<noteq> CHR ''1'') then Inl ValueError
      else Inr (fold (\<lambda>c acc. 2 * acc + (if c = CHR ''1'' then 1 else 0)) s 0))"

section \<open>The host's objects\<close>

text \<open>
  The parts of Blender's object model that the module reads. An object's custom properties
  (\<^verbatim>\<open>obj.items()\<close>, \<^verbatim>\<open>obj[key]\<close>, \<^verbatim>\<open>key in obj\<close>) are an association list; its parent is
  another object or nothing, so that the chain of parents is finite, as Blender enforces.
\<close>

text \<open>Custom properties: the host's keys are strings.\<close>

type_synonym props = "(string \<times> pyval) list"

record texture_slot =
  use_map_color_diffuse :: bool
  use_map_normal :: bool
  use_map_displacement :: bool
  image_filepath :: "string option"

record material =
  mat_name :: string
  mat_items :: props
  diffuse_intensity :: real
  diffuse_color :: "real list"
  ambient :: real
  specular_intensity :: real
  specular_color :: "real list"
  emit :: real
  specular_hardness :: int
  use_transparency :: bool
  alpha :: real
  texture_slots :: "texture_slot option list"

record rigid_body_settings =
  collision_groups :: "bool list"

record lod_level =
  lod_distance :: real
  lod_mesh_name :: string

record light_data =
  use_diffuse :: bool
  use_specular :: bool
  color :: "real list"
  light_type :: string
  spot_size :: real
  linear_attenuation :: "real option"
  quadratic_attenuation :: "real option"
  energy :: real

datatype obj_data = MeshData "material list" | LampData light_data | OtherData

record bone =
  rotation_euler_y :: real

record obj_attrs =
  name :: string
  phobostype :: string
  items :: props
  select :: bool
  data :: obj_data
  rigid_body :: "rigid_body_settings option"
  lod_levels :: "lod_level list"
  dimensions :: "real list"
  matrix_local_translation :: "real list"
  matrix_local_euler :: "real list"
  pose_bones :: "(string \<times> bone) list"

datatype bobject = BObject (attrs: obj_attrs) (parent: "bobject option")

record bgroup =
  group_name :: string
  group_objects :: "bobject list"

text \<open>What is passed where the code takes "an object": also a material, a group or \<^verbatim>\<open>None\<close>.\<close>

datatype datablock = ObjBlock bobject | MatBlock material | GroupBlock bgroup | NoBlock

record world =
  useObj :: bool
  useBobj :: bool
  useStl :: bool
  useDae :: bool
  decimalPlaces :: int

text \<open>\<^verbatim>\<open>bpy.data\<close> and \<^verbatim>\<open>bpy.context\<close>, as far as they are read or written.\<close>

record bpy =
  texts :: "(string \<times> string) list"
  groups :: "bgroup list"
  scene_objects :: "(string \<times> bobject) list"
  world0 :: world
  mode :: string
  rotation_modes :: "(string \<times> string) list"

text \<open>
  The functions the module imports from the rest of the package and from libraries
  (\<^verbatim>\<open>phobos.utils.naming\<close>, \<^verbatim>\<open>phobos.utils.selection\<close>, \<^verbatim>\<open>phobos.joints\<close>,
  \<^verbatim>\<open>phobos.utils.general\<close>, \<^verbatim>\<open>yaml\<close>, \<^verbatim>\<open>datetime\<close>) are not part of this file. They
  are parameters of the model: every statement holds for all of them, or names what it needs.
  \<open>getChildren\<close> stands for \<^verbatim>\<open>sUtils.getChildren(root)\<close> and \<open>getSelectedChildren\<close> for
  \<^verbatim>\<open>sUtils.getChildren(root, selected_only=True, include_hidden=False)\<close>;
  \<open>deriveJointType\<close> stands for \<^verbatim>\<open>joints.deriveJointType(obj, adjust=True)\<close> and gives the
  object as that call leaves it.
\<close>

record phobos_env =
  getObjectName :: "datablock \<Rightarrow> string option \<Rightarrow> string"
  getEffectiveParent :: "bobject \<Rightarrow> bobject option"
  getChildren :: "bobject \<Rightarrow> bobject list"
  getSelectedChildren :: "bobject \<Rightarrow> bobject list"
  getRoots :: "bobject list"
  deriveJointType :: "bobject \<Rightarrow> bobject"
  getJointConstraints :: "bobject \<Rightarrow> pyval \<times> pyval"
  deriveObjectPose :: "bobject \<Rightarrow> error + pyval"
  deriveGeometry :: "bobject \<Rightarrow> error + pyval"
  yaml_load :: "string \<Rightarrow> pyval"
  yaml_dump :: "pyval \<Rightarrow> string"
  float_of_str :: "string \<Rightarrow> real option"
  epsilonToZero :: "pyval \<Rightarrow> real \<Rightarrow> int \<Rightarrow> pyval"
  now_strftime :: string

section \<open>initObjectProperties\<close>

datatype ignoretypes = IgnoreSeq "string list" | IgnoreStr string

definition in_ignoretypes :: "string \<Rightarrow> ignoretypes \<Rightarrow> bool" where
  "in_ignoretypes category ig =
     (case ig of IgnoreSeq l \<Rightarrow> category \<in> set l | IgnoreStr s \<Rightarrow> str_in category s)"

definition block_items :: "datablock \<Rightarrow> error + props" where
  "block_items blk =
     (case blk of
        ObjBlock ob \<Rightarrow> Inr (items (attrs ob))
      | MatBlock m \<Rightarrow> Inr (mat_items m)
      | _ \<Rightarrow> Inl AttributeError)"

text \<open>\<^verbatim>\<open>if hasattr(value, 'to_list'): value = list(value)\<close>\<close>

definition to_list :: "pyval \<Rightarrow> pyval" where
  "to_list v = (case v of PIdArray xs \<Rightarrow> PList xs | _ \<Rightarrow> v)"

text \<open>
  \<^verbatim>\<open>if '$'+category not in props: props['$'+category] = {}\<close> followed by
  \<^verbatim>\<open>props['$'+category][specifier] = value\<close>; the item assignment fails on an entry that
  is not a dictionary.
\<close>

definition set_specifier :: "pydict \<Rightarrow> string \<Rightarrow> string \<Rightarrow> pyval \<Rightarrow> error + pydict" where
  "set_specifier props category specifier v =
     (let key = CHR ''$'' # category;
          props1 = (if has_key props key then props else dset key (PDict []) props)
      in case dget props1 key of
           Some (PDict d) \<Rightarrow> Inr (dset key (PDict (dset specifier v d)) props1)
         | _ \<Rightarrow> Inl TypeError)"

definition initProperty :: "string \<Rightarrow> ignoretypes \<Rightarrow> string \<times> pyval \<Rightarrow> pydict \<Rightarrow> error + pydict" where
  "initProperty ptype ig kv props =
     (let key = fst kv; v = to_list (snd kv) in
      if CHR ''/'' \<in> set key then
        if str_in (ptype @ ''/'') key then
          (case tl (split_str CHR ''/'' key) of
             [spec] \<Rightarrow> Inr (dset (replace_str (ptype @ ''/'') [] key) v props)
           | [category, specifier] \<Rightarrow> set_specifier props category specifier v
           | _ \<Rightarrow> Inr props)
        else if count_list key CHR ''/'' = 1 then
          (case split_str CHR ''/'' key of
             [category, specifier] \<Rightarrow>
               if \<not> in_ignoretypes category ig then set_specifier props category specifier v
               else Inr props
           | _ \<Rightarrow> Inl ValueError)
        else Inr props
      else Inr props)"

definition initObjectProperties ::
  "phobos_env \<Rightarrow> datablock \<Rightarrow> string option \<Rightarrow> ignoretypes \<Rightarrow> error + pydict" where
  "initObjectProperties env obj ptype ig =
     (let props = [(PStr ''name'', PStr (getObjectName env obj (Some ''material'')))] in
      ebind (block_items obj) (\<lambda>its.
        case ptype of
          None \<Rightarrow> Inr (fold (\<lambda>kv p. dset (fst kv) (snd kv) p) its props)
        | Some pt \<Rightarrow>
            if pt = [] then Inr (fold (\<lambda>kv p. dset (fst kv) (snd kv) p) its props)
            else efold (initProperty pt ig) its props))"

section \<open>deriveCollision\<close>

text \<open>
  \<^verbatim>\<open>int(''.join(['1' if group else '0' for group in groups[:16]])[::-1], 2)\<close>
\<close>

definition groups_bitmask :: "bool list \<Rightarrow> error + int" where
  "groups_bitmask gs =
     int_base2 (rev (map (\<lambda>g. if g then CHR ''1'' else CHR ''0'') (take 16 gs)))"

text \<open>
  An object without rigid-body settings has \<^verbatim>\<open>obj.rigid_body\<close> equal to \<^verbatim>\<open>None\<close>; reading
  \<^verbatim>\<open>collision_groups\<close> from it raises the AttributeError that the function catches.
\<close>

definition deriveCollision :: "phobos_env \<Rightarrow> bobject \<Rightarrow> error + pydict" where
  "deriveCollision env obj =
     ebind (initObjectProperties env (ObjBlock obj) (Some ''collision'') (IgnoreStr ''geometry''))
       (\<lambda>collision.
     ebind (deriveGeometry env obj) (\<lambda>geometry.
     ebind (deriveObjectPose env obj) (\<lambda>pose.
       let collision = dset ''pose'' pose (dset ''geometry'' geometry collision) in
       case rigid_body (attrs obj) of
         None \<Rightarrow> Inr collision
       | Some rb \<Rightarrow>
           ebind (groups_bitmask (collision_groups rb)) (\<lambda>b.
             Inr (dset ''bitmask'' (PInt b) collision)))))"

section \<open>More operations on values\<close>

text \<open>
  \<^verbatim>\<open>a == b\<close>: numbers compare by value across \<^verbatim>\<open>bool\<close>, \<^verbatim>\<open>int\<close> and \<^verbatim>\<open>float\<close>,
  sequences of one kind element by element, dictionaries entry by entry whatever their
  order, everything else as itself.
\<close>

definition num_val :: "pyval \<Rightarrow> real option" where
  "num_val v =
     (case v of PBool b \<Rightarrow> Some (of_bool b) | PInt i \<Rightarrow> Some (of_int i) | PFloat r \<Rightarrow> Some r
      | _ \<Rightarrow> None)"

function py_eq :: "pyval \<Rightarrow> pyval \<Rightarrow> bool" where
  "py_eq a b =
     (case a of
        PList xs \<Rightarrow> (case b of PList ys \<Rightarrow> list_all2 py_eq xs ys | _ \<Rightarrow> False)
      | PTuple xs \<Rightarrow> (case b of PTuple ys \<Rightarrow> list_all2 py_eq xs ys | _ \<Rightarrow> False)
      | PIdArray xs \<Rightarrow> (case b of PIdArray ys \<Rightarrow> list_all2 py_eq xs ys | _ \<Rightarrow> False)
      | PDict d \<Rightarrow>
          (case b of
             PDict e \<Rightarrow>
               length d = length e \<and>
               (\<forall>kv \<in> set d.
                  case dict_lookup e (fst kv) of None \<Rightarrow> False | Some w \<Rightarrow> py_eq (snd kv) w)
           | _ \<Rightarrow> False)
      | _ \<Rightarrow> (case (num_val a, num_val b) of (Some x, Some y) \<Rightarrow> x = y | _ \<Rightarrow> a = b))"
  by pat_completeness auto
termination
  by (relation "measure (\<lambda>(a, b). size a)") (auto simp: less_Suc_eq_le size_list_estimation')

declare py_eq.simps [simp del]

text \<open>\<^verbatim>\<open>x in c\<close>\<close>

definition py_in :: "pyval \<Rightarrow> pyval \<Rightarrow> error + bool" where
  "py_in x c =
     (case c of
        PList xs \<Rightarrow> Inr (\<exists>y \<in> set xs. py_eq x y)
      | PTuple xs \<Rightarrow> Inr (\<exists>y \<in> set xs. py_eq x y)
      | PIdArray xs \<Rightarrow> Inr (\<exists>y \<in> set xs. py_eq x y)
      | PStr s \<Rightarrow> (case x of PStr sub \<Rightarrow> Inr (str_in sub s) | _ \<Rightarrow> Inl TypeError)
      | PDict d \<Rightarrow> (if hashable x then Inr (dict_lookup d x \<noteq> None) else Inl TypeError)
      | _ \<Rightarrow> Inl TypeError)"

text \<open>The elements that \<^verbatim>\<open>for x in v\<close> and \<^verbatim>\<open>list(v)\<close> run through.\<close>

definition py_iter :: "pyval \<Rightarrow> error + pyval list" where
  "py_iter v =
     (case v of
        PList xs \<Rightarrow> Inr xs
      | PTuple xs \<Rightarrow> Inr xs
      | PIdArray xs \<Rightarrow> Inr xs
      | PStr s \<Rightarrow> Inr (map (\<lambda>c. PStr [c]) s)
      | PDict d \<Rightarrow> Inr (map fst d)
      | _ \<Rightarrow> Inl TypeError)"

definition py_list :: "pyval \<Rightarrow> error + pyval" where
  "py_list v = ebind (py_iter v) (\<lambda>xs. Inr (PList xs))"

definition py_len :: "pyval \<Rightarrow> error + nat" where
  "py_len v =
     (case v of
        PList xs \<Rightarrow> Inr (length xs)
      | PTuple xs \<Rightarrow> Inr (length xs)
      | PIdArray xs \<Rightarrow> Inr (length xs)
      | PStr s \<Rightarrow> Inr (length s)
      | PDict d \<Rightarrow> Inr (length d)
      | _ \<Rightarrow> Inl TypeError)"

text \<open>\<^verbatim>\<open>v[i]\<close> for a natural number \<open>i\<close>.\<close>

definition py_index :: "pyval \<Rightarrow> nat \<Rightarrow> error + pyval" where
  "py_index v i = py_getitem v (PInt (int i))"

text \<open>\<^verbatim>\<open>'literal' + v\<close>: only a string can be appended to a string.\<close>

definition str_plus :: "string \<Rightarrow> pyval \<Rightarrow> error + string" where
  "str_plus s v = (case v of PStr t \<Rightarrow> Inr (s @ t) | _ \<Rightarrow> Inl TypeError)"

definition py_float :: "phobos_env \<Rightarrow> pyval \<Rightarrow> error + pyval" where
  "py_float env v =
     (case v of
        PBool b \<Rightarrow> Inr (PFloat (of_bool b))
      | PInt i \<Rightarrow> Inr (PFloat (of_int i))
      | PFloat r \<Rightarrow> Inr (PFloat r)
      | PStr s \<Rightarrow> (case float_of_str env s of None \<Rightarrow> Inl ValueError | Some r \<Rightarrow> Inr (PFloat r))
      | _ \<Rightarrow> Inl TypeError)"

text \<open>\<^verbatim>\<open>bitmask | v\<close> with an integer on the left.\<close>

definition int_or :: "int \<Rightarrow> pyval \<Rightarrow> error + int" where
  "int_or a v =
     (case v of
        PInt b \<Rightarrow> Inr (or a b)
      | PBool b \<Rightarrow> Inr (or a (of_bool b))
      | _ \<Rightarrow> Inl TypeError)"

text \<open>\<^verbatim>\<open>v += 1\<close>\<close>

definition py_add1 :: "pyval \<Rightarrow> error + pyval" where
  "py_add1 v =
     (case v of
        PInt i \<Rightarrow> Inr (PInt (i + 1))
      | PBool b \<Rightarrow> Inr (PInt (of_bool b + 1))
      | PFloat r \<Rightarrow> Inr (PFloat (r + 1))
      | _ \<Rightarrow> Inl TypeError)"

text \<open>\<^verbatim>\<open>d[k] = f(d[k])\<close>, the step of a nested item assignment.\<close>

definition update_val :: "pyval \<Rightarrow> pyval \<Rightarrow> (pyval \<Rightarrow> error + pyval) \<Rightarrow> error + pyval" where
  "update_val d k f = ebind (py_getitem d k) (\<lambda>v. ebind (f v) (\<lambda>v'. py_setitem d k v'))"

definition update_at :: "pyval \<Rightarrow> string \<Rightarrow> (pyval \<Rightarrow> error + pyval) \<Rightarrow> error + pyval" where
  "update_at d k f = update_val d (PStr k) f"

text \<open>\<^verbatim>\<open>dict(pairs)\<close>\<close>

definition dict_of :: "(string \<times> pyval) list \<Rightarrow> pydict" where
  "dict_of ps = fold (\<lambda>kv d. dset (fst kv) (snd kv) d) ps []"

text \<open>\<^verbatim>\<open>obj[key]\<close> and \<^verbatim>\<open>key in obj\<close> on an object's custom properties.\<close>

definition obj_getitem :: "bobject \<Rightarrow> string \<Rightarrow> error + pyval" where
  "obj_getitem obj k = (case map_of (items (attrs obj)) k of None \<Rightarrow> Inl KeyError | Some v \<Rightarrow> Inr v)"

definition obj_has :: "bobject \<Rightarrow> string \<Rightarrow> bool" where
  "obj_has obj k = (map_of (items (attrs obj)) k \<noteq> None)"

definition block_of :: "bobject option \<Rightarrow> datablock" where
  "block_of p = (case p of None \<Rightarrow> NoBlock | Some ob \<Rightarrow> ObjBlock ob)"

text \<open>\<^verbatim>\<open>obj.data.materials\<close>\<close>

definition data_materials :: "bobject \<Rightarrow> error + material list" where
  "data_materials obj = (case data (attrs obj) of MeshData ms \<Rightarrow> Inr ms | _ \<Rightarrow> Inl AttributeError)"

section \<open>Materials\<close>

definition rgb :: "real list \<Rightarrow> pyval" where
  "rgb xs = PDict (dict_of (zip [''r'', ''g'', ''b''] (map PFloat xs)))"

text \<open>\<^verbatim>\<open>mat.texture_slots[0].texture.image.filepath\<close>, inside the loop over the slots.\<close>

definition slot0_filepath :: "material \<Rightarrow> error + string" where
  "slot0_filepath mat =
     (case texture_slots mat of
        [] \<Rightarrow> Inl IndexError
      | None # _ \<Rightarrow> Inl AttributeError
      | Some t # _ \<Rightarrow> (case image_filepath t of None \<Rightarrow> Inl AttributeError | Some p \<Rightarrow> Inr p))"

definition texture_entry :: "material \<Rightarrow> bool \<Rightarrow> string \<Rightarrow> pydict \<Rightarrow> error + pydict" where
  "texture_entry mat flag key material =
     (if flag then
        ebind (slot0_filepath mat) (\<lambda>p. Inr (dset key (PStr (replace_str ''//'' [] p)) material))
      else Inr material)"

definition texture_step :: "material \<Rightarrow> texture_slot option \<Rightarrow> pydict \<Rightarrow> error + pydict" where
  "texture_step mat tex material =
     (case tex of
        None \<Rightarrow> Inr material
      | Some t \<Rightarrow>
          (case ebind (texture_entry mat (use_map_color_diffuse t) ''diffuseTexture'' material) (\<lambda>m1.
                ebind (texture_entry mat (use_map_normal t) ''normalTexture'' m1) (\<lambda>m2.
                texture_entry mat (use_map_displacement t) ''displacementTexture'' m2)) of
             Inl KeyError \<Rightarrow> Inr material
           | Inl AttributeError \<Rightarrow> Inr material
           | Inl e \<Rightarrow> Inl e
           | Inr m \<Rightarrow> Inr m))"

definition deriveMaterial :: "phobos_env \<Rightarrow> material \<Rightarrow> error + pydict" where
  "deriveMaterial env mat =
     ebind (initObjectProperties env (MatBlock mat) (Some ''material'') (IgnoreSeq [])) (\<lambda>material.
       let material = dset ''name'' (PStr (mat_name mat)) material;
           material = dset ''diffuseColor''
                        (rgb (map (\<lambda>num. diffuse_intensity mat * num) (diffuse_color mat))) material;
           material = dset ''ambientColor''
                        (rgb (map (\<lambda>num. ambient mat * diffuse_intensity mat * num) (diffuse_color mat)))
                        material;
           material = dset ''specularColor''
                        (rgb (map (\<lambda>num. specular_intensity mat * num) (specular_color mat))) material;
           material = (if emit mat > 0 then
                         dset ''emissionColor''
                           (rgb (map (\<lambda>num. emit mat * specular_intensity mat * num) (specular_color mat)))
                           material
                       else material);
           material = dset ''shininess'' (PFloat (of_int (specular_hardness mat) / 2)) material;
           material = (if use_transparency mat then
                         dset ''transparency'' (PFloat (1 - alpha mat)) material
                       else material)
       in efold (texture_step mat) (texture_slots mat) material)"

definition collectMaterial :: "phobos_env \<Rightarrow> bobject \<Rightarrow> pydict \<Rightarrow> error + pydict" where
  "collectMaterial env obj materials =
     (if phobostype (attrs obj) = ''visual'' then
        ebind (data_materials obj) (\<lambda>ms.
          case ms of
            [] \<Rightarrow> Inr materials
          | mat # _ \<Rightarrow>
              if \<not> has_key materials (mat_name mat) then
                ebind (deriveMaterial env mat) (\<lambda>m.
                  Inr (dset (mat_name mat) (PDict (dset ''users'' (PInt 1) m)) materials))
              else
                ebind (update_at (PDict materials) (mat_name mat) (\<lambda>entry.
                         update_at entry ''users'' py_add1)) (\<lambda>d.
                  case d of PDict materials' \<Rightarrow> Inr materials' | _ \<Rightarrow> Inl TypeError))
      else Inr materials)"

definition collectMaterials :: "phobos_env \<Rightarrow> bobject list \<Rightarrow> error + pydict" where
  "collectMaterials env objectlist = efold (collectMaterial env) objectlist []"

section \<open>Links, joints and motors\<close>

definition deriveLink :: "phobos_env \<Rightarrow> bobject \<Rightarrow> error + pydict" where
  "deriveLink env obj =
     ebind (initObjectProperties env (ObjBlock obj) (Some ''link'') (IgnoreSeq [''joint'', ''motor'']))
       (\<lambda>props.
     ebind (deriveObjectPose env obj) (\<lambda>pose.
       Inr (dset ''approxcollision'' (PList [])
           (dset ''inertial'' (PDict [])
           (dset ''visual'' (PDict [])
           (dset ''collision'' (PDict [])
           (dset ''pose'' pose props)))))))"

text \<open>The object after \<^verbatim>\<open>if not 'joint/type' in obj.keys(): joints.deriveJointType(obj, adjust=True)\<close>.\<close>

definition adjusted :: "phobos_env \<Rightarrow> bobject \<Rightarrow> bobject" where
  "adjusted env obj = (if \<not> obj_has obj ''joint/type'' then deriveJointType env obj else obj)"

definition move_limit :: "string \<Rightarrow> string \<Rightarrow> pydict \<times> pydict \<Rightarrow> pydict \<times> pydict" where
  "move_limit src dst pl =
     (case dget (fst pl) src of
        None \<Rightarrow> pl
      | Some v \<Rightarrow> (dict_delete (PStr src) (fst pl), dset dst v (snd pl)))"

definition deriveJoint :: "phobos_env \<Rightarrow> bobject \<Rightarrow> error + pydict" where
  "deriveJoint env obj0 =
     (let obj = adjusted env obj0 in
      ebind (initObjectProperties env (ObjBlock obj) (Some ''joint'') (IgnoreSeq [''link'', ''motor'']))
        (\<lambda>props.
        let par = getEffectiveParent env obj;
            props = dset ''parent'' (PStr (getObjectName env (block_of par) None)) props;
            props = dset ''child'' (PStr (getObjectName env (ObjBlock obj) None)) props;
            axis = fst (getJointConstraints env obj);
            minmax = snd (getJointConstraints env obj)
        in
        ebind (if truthy axis then ebind (py_list axis) (\<lambda>l. Inr (dset ''axis'' l props))
               else Inr props) (\<lambda>props.
        ebind (if minmax \<noteq> PNone then
                 ebind (py_len minmax) (\<lambda>n.
                   if n = 2 then
                     ebind (py_index minmax 0) (\<lambda>lo.
                     ebind (py_index minmax 1) (\<lambda>hi.
                       Inr [(PStr ''lower'', lo), (PStr ''upper'', hi)]))
                   else Inr [])
               else Inr []) (\<lambda>limits.
          let pl = move_limit ''maxeffort'' ''effort''
                     (move_limit ''maxvelocity'' ''velocity'' (props, limits))
          in Inr (if snd pl \<noteq> [] then dset ''limits'' (PDict (snd pl)) (fst pl)
                  else fst pl)))))"

text \<open>
  The body of the \<^verbatim>\<open>try\<close> in \<^verbatim>\<open>deriveMotor\<close>; a KeyError from it makes the function
  return \<^verbatim>\<open>None\<close>.
\<close>

definition motor_limits :: "pydict \<Rightarrow> pydict \<Rightarrow> error + pydict" where
  "motor_limits props joint =
     ebind (getitem (PDict props) ''type'') (\<lambda>t.
       if py_eq t (PStr ''PID'') then
         if has_key joint ''limits'' then
           ebind (getitem (PDict joint) ''limits'') (\<lambda>limits.
           ebind (getitem limits ''lower'') (\<lambda>lo.
           ebind (getitem limits ''upper'') (\<lambda>hi.
             Inr (dset ''maxValue'' hi (dset ''minValue'' lo props)))))
         else Inr props
       else if py_eq t (PStr ''DC'') then
         ebind (getitem (PDict props) ''maxSpeed'') (\<lambda>ms.
           Inr (dset ''maxValue'' ms (dset ''minValue'' (PInt 0) props)))
       else Inr props)"

definition deriveMotor :: "phobos_env \<Rightarrow> bobject \<Rightarrow> pydict \<Rightarrow> error + pydict option" where
  "deriveMotor env obj joint =
     ebind (initObjectProperties env (ObjBlock obj) (Some ''motor'') (IgnoreSeq [''link'', ''joint'']))
       (\<lambda>props.
       if length props > 1 then
         (let jn = (case map_of (items (attrs obj)) ''joint/name'' of
                      Some v \<Rightarrow> v | None \<Rightarrow> PStr (name (attrs obj)));
              props = dset ''joint'' jn props
          in case motor_limits props joint of
               Inl KeyError \<Rightarrow> Inr None
             | Inl e \<Rightarrow> Inl e
             | Inr props' \<Rightarrow> Inr (Some props'))
       else Inr None)"

definition deriveKinematics ::
  "phobos_env \<Rightarrow> bobject \<Rightarrow> error + (pydict \<times> pydict option \<times> pydict option)" where
  "deriveKinematics env obj =
     ebind (deriveLink env obj) (\<lambda>link.
       case parent obj of
         None \<Rightarrow> Inr (link, None, None)
       | Some _ \<Rightarrow>
           ebind (deriveJoint env obj) (\<lambda>joint.
           ebind (deriveMotor env (adjusted env obj) joint) (\<lambda>motor.
             Inr (link, Some joint, motor))))"

section \<open>Inertials, visuals, sensors, controllers and lights\<close>

definition deriveInertial :: "phobos_env \<Rightarrow> bobject \<Rightarrow> error + pydict" where
  "deriveInertial env obj =
     ebind (initObjectProperties env (ObjBlock obj) (Some ''inertial'') (IgnoreSeq [])) (\<lambda>props.
     ebind (obj_getitem obj ''inertial/inertia'') (\<lambda>inertia.
     ebind (py_iter inertia) (\<lambda>xs.
     ebind (efold (\<lambda>x acc. ebind (py_float env x) (\<lambda>f. Inr (acc @ [f]))) xs []) (\<lambda>fs.
     ebind (deriveObjectPose env obj) (\<lambda>pose.
       Inr (dset ''pose'' pose (dset ''inertia'' (PList fs) props)))))))"

definition mesh_extension :: "world \<Rightarrow> string" where
  "mesh_extension w =
     (if useObj w then ''.obj''
      else if useBobj w then ''.bobj''
      else if useStl w then ''.stl''
      else if useDae w then ''.dae''
      else ''.obj'')"

definition lod_entry :: "bpy \<Rightarrow> pyval \<Rightarrow> lod_level list \<Rightarrow> nat \<Rightarrow> pyval list \<Rightarrow> error + pyval list" where
  "lod_entry b maxdlist levels i lodlist =
     (let filename = lod_mesh_name (levels ! i) @ mesh_extension (world0 b) in
      ebind (py_index maxdlist i) (\<lambda>e.
        Inr (lodlist @ [PDict [(PStr ''start'', PFloat (lod_distance (levels ! i))), (PStr ''end'', e),
                               (PStr ''filename'', PStr (os_path_join ''meshes'' filename))]])))"

definition deriveVisual :: "phobos_env \<Rightarrow> bpy \<Rightarrow> bobject \<Rightarrow> error + pydict" where
  "deriveVisual env b obj =
     ebind (initObjectProperties env (ObjBlock obj) (Some ''visual'') (IgnoreStr ''geometry''))
       (\<lambda>visual.
     ebind (deriveGeometry env obj) (\<lambda>geometry.
     ebind (deriveObjectPose env obj) (\<lambda>pose.
       let visual = dset ''pose'' pose (dset ''geometry'' geometry visual);
           levels = lod_levels (attrs obj)
       in
       if levels \<noteq> [] then
         (let maxdlist = (case map_of (items (attrs obj)) ''lodmaxdistances'' of
                            Some v \<Rightarrow> v
                          | None \<Rightarrow> PList (map (\<lambda>l. PFloat (lod_distance l)) (tl levels) @ [PFloat 100]))
          in ebind (efold (lod_entry b maxdlist levels) [0..<length levels] []) (\<lambda>lodlist.
               Inr (dset ''lod'' (PList lodlist) visual)))
       else Inr visual)))"

definition deriveApproxsphere :: "phobos_env \<Rightarrow> bobject \<Rightarrow> error + pydict" where
  "deriveApproxsphere env obj =
     ebind (initObjectProperties env (ObjBlock obj) None (IgnoreSeq [])) (\<lambda>sphere.
       case dimensions (attrs obj) of
         [] \<Rightarrow> Inl IndexError
       | d # _ \<Rightarrow>
           Inr (dset ''center'' (PList (map PFloat (matrix_local_translation (attrs obj))))
               (dset ''radius'' (PFloat (d / 2)) sphere)))"

definition deriveSensor :: "phobos_env \<Rightarrow> bobject \<Rightarrow> error + pydict" where
  "deriveSensor env obj =
     ebind (initObjectProperties env (ObjBlock obj) (Some ''sensor'') (IgnoreSeq [])) (\<lambda>props.
       Inr (dset ''link'' (PStr (getObjectName env (block_of (parent obj)) None)) props))"

definition deriveController :: "phobos_env \<Rightarrow> bobject \<Rightarrow> error + pydict" where
  "deriveController env obj =
     initObjectProperties env (ObjBlock obj) (Some ''controller'') (IgnoreSeq [])"

text \<open>
  \<^verbatim>\<open>float(light_data.linear_attenuation)\<close> inside \<^verbatim>\<open>try ... except AttributeError: pass\<close>:
  a lamp without the attribute leaves the entry out.
\<close>

definition attenuation :: "string \<Rightarrow> real option \<Rightarrow> pydict \<Rightarrow> pydict" where
  "attenuation key a light = (case a of None \<Rightarrow> light | Some r \<Rightarrow> dset key (PFloat r) light)"

definition deriveLight :: "phobos_env \<Rightarrow> bobject \<Rightarrow> error + pydict" where
  "deriveLight env obj =
     ebind (initObjectProperties env (ObjBlock obj) (Some ''light'') (IgnoreSeq [])) (\<lambda>light.
       case data (attrs obj) of
         LampData ld \<Rightarrow>
           (let light = (if use_diffuse ld then
                           dset ''color_diffuse'' (PList (map PFloat (color ld))) light
                         else light)
            in
            ebind (if use_specular ld then
                     ebind (getitem (PDict light) ''color_diffuse'') (\<lambda>c.
                       Inr (dset ''color_specular'' c light))
                   else Inr light) (\<lambda>light.
              let light = dset ''type'' (PStr (lower (light_type ld))) light;
                  light = (if lower (light_type ld) = ''SPOT'' then
                             dset ''size'' (PFloat (spot_size ld)) light
                           else light);
                  light = dset ''position''
                            (PList (map PFloat (matrix_local_translation (attrs obj)))) light;
                  light = dset ''rotation''
                            (PList (map PFloat (matrix_local_euler (attrs obj)))) light;
                  light = attenuation ''attenuation_linear'' (linear_attenuation ld) light;
                  light = attenuation ''attenuation_quadratic'' (quadratic_attenuation ld) light;
                  light = (if energy ld \<noteq> 0 then
                             dset ''attenuation_constant'' (PFloat (energy ld)) light
                           else light)
              in Inr (case parent obj of
                        None \<Rightarrow> light
                      | Some par \<Rightarrow>
                          dset ''parent''
                            (PStr (getObjectName env (ObjBlock par) (Some ''link''))) light)))
       | _ \<Rightarrow> Inl AttributeError)"

section \<open>deriveDictEntry, groups and chains\<close>

text \<open>
  A KeyError inside the \<^verbatim>\<open>try\<close> gives the pair \<^verbatim>\<open>(None, None)\<close>; a phobostype that no
  branch handles leaves \<^verbatim>\<open>props\<close> unbound at the \<^verbatim>\<open>return\<close>.
\<close>

definition deriveDictEntry :: "phobos_env \<Rightarrow> bpy \<Rightarrow> bobject \<Rightarrow> error + pyval" where
  "deriveDictEntry env b obj =
     (let t = phobostype (attrs obj);
          r = (if t = ''inertial'' then deriveInertial env obj
               else if t = ''visual'' then deriveVisual env b obj
               else if t = ''collision'' then deriveCollision env obj
               else if t = ''approxsphere'' then deriveApproxsphere env obj
               else if t = ''sensor'' then deriveSensor env obj
               else if t = ''controller'' then deriveController env obj
               else if t = ''light'' then deriveLight env obj
               else Inl (UnboundLocalError ''props''))
      in case r of
           Inl KeyError \<Rightarrow> Inr (PTuple [PNone, PNone])
         | Inl e \<Rightarrow> Inl e
         | Inr props \<Rightarrow> Inr (PDict props))"

definition deriveGroupEntry :: "phobos_env \<Rightarrow> bgroup \<Rightarrow> pyval" where
  "deriveGroupEntry env g =
     PList (map (\<lambda>obj. PDict [(PStr ''type'', PStr ''link''),
                               (PStr ''name'', PStr (getObjectName env (ObjBlock obj) None))])
             (filter (\<lambda>obj. phobostype (attrs obj) = ''link'') (group_objects g)))"

text \<open>
  The \<^verbatim>\<open>while not chainclosed\<close> loop of \<^verbatim>\<open>deriveChainEntry\<close>, started with
  \<^verbatim>\<open>parent = obj\<close> and the elements collected so far. It gives \<^verbatim>\<open>None\<close> for an unclosed
  chain, else the chain's \<^verbatim>\<open>'start'\<close> and \<^verbatim>\<open>'elements'\<close>.
\<close>

fun closeChain ::
  "phobos_env \<Rightarrow> pyval \<Rightarrow> bobject \<Rightarrow> pyval list \<Rightarrow> error + (string \<times> pyval list) option" where
  "closeChain env chainName (BObject a None) elements = Inr None"
| "closeChain env chainName (BObject a (Some par)) elements =
     (let elements = elements @ [PStr (name a)] in
      case map_of (items (attrs par)) ''startChain'' of
        None \<Rightarrow> closeChain env chainName par elements
      | Some startchain \<Rightarrow>
          ebind (py_in chainName startchain) (\<lambda>found.
            if found then
              Inr (Some (getObjectName env (ObjBlock par) None,
                         elements @ [PStr (getObjectName env (ObjBlock par) None)]))
            else closeChain env chainName par elements))"

definition chainStep :: "phobos_env \<Rightarrow> bobject \<Rightarrow> pyval \<Rightarrow> pyval list \<Rightarrow> error + pyval list" where
  "chainStep env obj chainName returnchains =
     ebind (closeChain env chainName obj []) (\<lambda>r.
       case r of
         None \<Rightarrow> Inr returnchains
       | Some se \<Rightarrow>
           Inr (returnchains @
                [PDict [(PStr ''name'', chainName), (PStr ''start'', PStr (fst se)),
                        (PStr ''end'', PStr (getObjectName env (ObjBlock obj) None)),
                        (PStr ''elements'', PList (snd se))]]))"

definition deriveChainEntry :: "phobos_env \<Rightarrow> bobject \<Rightarrow> error + pyval list" where
  "deriveChainEntry env obj =
     (case map_of (items (attrs obj)) ''endChain'' of
        None \<Rightarrow> Inl (UnboundLocalError ''chainlist'')
      | Some chainlist \<Rightarrow>
          ebind (py_iter chainlist) (\<lambda>names. efold (chainStep env obj) names []))"

section \<open>Stored poses\<close>

text \<open>
  Modelled from the spec: \<^verbatim>\<open>bUtils.readTextFile\<close> and \<^verbatim>\<open>bUtils.updateTextFile\<close> are not in
  this file. The spec gives flat text blobs that are stored and reloaded: reading a text
  block gives its contents, the empty string when there is no block of that name; updating
  replaces the block of that name by one with the new contents.
\<close>

definition readTextFile :: "bpy \<Rightarrow> string \<Rightarrow> string" where
  "readTextFile b textfilename = (case map_of (texts b) textfilename of None \<Rightarrow> [] | Some c \<Rightarrow> c)"








text \<open>
  The loop \<^verbatim>\<open>for pose in poses\<close> of \<^verbatim>\<open>deriveStoredPoses\<close>, with
  \<^verbatim>\<open>newpose = {'name': pose, 'joints': poses[pose]}\<close> and \<^verbatim>\<open>posedict[pose] = newpose\<close>.
\<close>

definition posedictStep :: "pyval \<Rightarrow> pyval \<Rightarrow> pydict \<Rightarrow> error + pydict" where
  "posedictStep poses pose posedict =
     ebind (py_getitem poses pose) (\<lambda>joints.
       if hashable pose then
         Inr (dict_update pose (PDict [(PStr ''name'', pose), (PStr ''joints'', joints)]) posedict)
       else Inl TypeError)"

definition posedict_of :: "pyval \<Rightarrow> error + pydict" where
  "posedict_of poses = ebind (py_iter poses) (\<lambda>ps. efold (posedictStep poses) ps [])"

text \<open>The loop over \<^verbatim>\<open>bpy.data.texts\<close>, with its \<^verbatim>\<open>break\<close>.\<close>

fun storedPoses :: "phobos_env \<Rightarrow> bpy \<Rightarrow> (string \<times> string) list \<Rightarrow> pydict \<Rightarrow> error + pydict" where
  "storedPoses env b [] poses_dict = Inr poses_dict"
| "storedPoses env b (text # rest) poses_dict =
     (let file_name = fst text in
      if startswith file_name ''robot_poses_'' then
        (let robot_name = drop (length ''robot_poses_'') file_name;
             poses_file = readTextFile b file_name
         in
         if poses_file = [] then Inr (dset robot_name (PDict []) poses_dict)
         else
           ebind (posedict_of (yaml_load env poses_file)) (\<lambda>posedict.
             storedPoses env b rest (dset robot_name (PDict posedict) poses_dict)))
      else storedPoses env b rest poses_dict)"

definition deriveStoredPoses :: "phobos_env \<Rightarrow> bpy \<Rightarrow> error + pydict" where
  "deriveStoredPoses env b = storedPoses env b (texts b) []"

section \<open>buildModelDictionary\<close>

text \<open>
  The names bound at module level: the imports and the functions defined in the file.
  A global name outside this list (and outside the builtins) raises NameError when read.
\<close>

definition module_names :: "string list" where
  "module_names =
     [''os'', ''copy'', ''sys'', ''datetime'', ''yaml'', ''bpy'', ''joints'', ''nUtils'', ''sUtils'',
      ''bUtils'', ''log'', ''epsilonToZero'', ''deriveObjectPose'', ''deriveGeometry'',
      ''register'', ''collectMaterials'', ''deriveMaterial'', ''deriveLink'', ''deriveJoint'',
      ''deriveJointState'', ''deriveMotor'', ''deriveKinematics'', ''deriveInertial'',
      ''deriveVisual'', ''deriveCollision'', ''deriveApproxsphere'', ''deriveSensor'',
      ''deriveController'', ''deriveLight'', ''initObjectProperties'', ''deriveDictEntry'',
      ''deriveGroupEntry'', ''deriveChainEntry'', ''storePose'', ''loadPose'', ''get_poses'',
      ''deriveStoredPoses'', ''buildModelDictionary'']"

definition global_name :: "string \<Rightarrow> error + unit" where
  "global_name n = (if n \<in> set module_names then Inr () else Inl (NameError n))"

definition no_link_message :: string where
  "no_link_message =
     ''Found no '' @ [CHR 0x27] @ ''link'' @ [CHR 0x27] @ '' object as root of the robot model.''"

text \<open>\<^verbatim>\<open>robot[section][d['name']] = d\<close>\<close>

definition add_named :: "string \<Rightarrow> pydict \<Rightarrow> pyval \<Rightarrow> error + pyval" where
  "add_named sec d robot =
     ebind (getitem (PDict d) ''name'') (\<lambda>n.
       update_at robot sec (\<lambda>entries. py_setitem entries n (PDict d)))"

text \<open>The body of the loop "digest all the links to derive link and joint information".\<close>

definition parseLink :: "phobos_env \<Rightarrow> bpy \<Rightarrow> bobject \<Rightarrow> pyval \<Rightarrow> error + pyval" where
  "parseLink env b link robot =
     ebind (deriveKinematics env link) (\<lambda>k.
       let linkdict = fst k; jointdict = fst (snd k); motordict = snd (snd k) in
       ebind (add_named ''links'' linkdict robot) (\<lambda>robot.
       ebind (case jointdict of
                None \<Rightarrow> Inr robot
              | Some jd \<Rightarrow> if jd \<noteq> [] then add_named ''joints'' jd robot else Inr robot) (\<lambda>robot.
       ebind (case motordict of
                None \<Rightarrow> Inr robot
              | Some md \<Rightarrow> if md \<noteq> [] then add_named ''motors'' md robot else Inr robot) (\<lambda>robot.
       ebind (getitem (PDict linkdict) ''name'') (\<lambda>lname.
         case ebind (str_plus ''inertial_'' lname) (\<lambda>iname.
                case map_of (scene_objects b) iname of
                  None \<Rightarrow> Inl KeyError
                | Some inertial \<Rightarrow>
                    ebind (deriveDictEntry env b inertial) (\<lambda>props.
                      if props \<noteq> PNone then
                        update_at robot ''links'' (\<lambda>links.
                          update_val links lname (\<lambda>l. setitem l ''inertial'' props))
                      else Inr robot)) of
           Inl KeyError \<Rightarrow> Inr robot
         | Inl e \<Rightarrow> Inl e
         | Inr robot' \<Rightarrow> Inr robot')))))"

text \<open>The body of the loop over visuals, collisions and approximation spheres.\<close>

definition parseGeometry :: "phobos_env \<Rightarrow> bpy \<Rightarrow> bobject \<Rightarrow> pyval \<Rightarrow> error + pyval" where
  "parseGeometry env b obj robot =
     (let t = phobostype (attrs obj);
          ep = getEffectiveParent env obj;
          parentname = getObjectName env (block_of ep) None
      in
      if t = ''visual'' \<or> t = ''collision'' then
        ebind (deriveDictEntry env b obj) (\<lambda>props.
          case ep of
            None \<Rightarrow> Inl AttributeError
          | Some _ \<Rightarrow>
              update_at robot ''links'' (\<lambda>links.
                update_at links parentname (\<lambda>link.
                  update_at link t (\<lambda>entries.
                    setitem entries (getObjectName env (ObjBlock obj) None) props))))
      else if t = ''approxsphere'' then
        ebind (deriveDictEntry env b obj) (\<lambda>props.
          update_at robot ''links'' (\<lambda>links.
            update_at links parentname (\<lambda>link.
              update_at link ''approxcollision'' (\<lambda>l.
                case l of PList xs \<Rightarrow> Inr (PList (xs @ [props])) | _ \<Rightarrow> Inl AttributeError))))
      else Inr robot)"

text \<open>
  "combine collision information for links": the inner loop, with its
  \<^verbatim>\<open>try ... except KeyError: pass\<close>, and the outer loop over the links.
\<close>

definition orBitmask :: "pyval \<Rightarrow> pyval \<Rightarrow> int \<Rightarrow> error + int" where
  "orBitmask collision collname bitmask =
     (case ebind (py_getitem collision collname) (\<lambda>entry.
             ebind (getitem entry ''bitmask'') (\<lambda>v. int_or bitmask v)) of
        Inl KeyError \<Rightarrow> Inr bitmask
      | Inl e \<Rightarrow> Inl e
      | Inr bm \<Rightarrow> Inr bm)"

definition collisionBitmask :: "pyval \<Rightarrow> error + int" where
  "collisionBitmask link =
     ebind (getitem link ''collision'') (\<lambda>collision.
       case collision of
         PDict d \<Rightarrow> efold (orBitmask collision) (map fst d) 0
       | _ \<Rightarrow> Inl TypeError)"

definition combineLink :: "pyval \<Rightarrow> pyval \<Rightarrow> error + pyval" where
  "combineLink linkname links =
     update_val links linkname (\<lambda>link.
       ebind (collisionBitmask link) (\<lambda>bitmask.
         setitem link ''collision_bitmask'' (PInt bitmask)))"

definition combineCollisions :: "pyval \<Rightarrow> error + pyval" where
  "combineCollisions robot =
     update_at robot ''links'' (\<lambda>links.
       case links of
         PDict d \<Rightarrow> efold combineLink (map fst d) links
       | _ \<Rightarrow> Inl TypeError)"

definition parseSensorController :: "phobos_env \<Rightarrow> bpy \<Rightarrow> bobject \<Rightarrow> pyval \<Rightarrow> error + pyval" where
  "parseSensorController env b obj robot =
     (let t = phobostype (attrs obj) in
      if t = ''sensor'' \<or> t = ''controller'' then
        ebind (deriveDictEntry env b obj) (\<lambda>props.
          update_at robot (t @ ''s'') (\<lambda>entries.
            setitem entries (getObjectName env (ObjBlock obj) None) props))
      else Inr robot)"

text \<open>The loop after \<^verbatim>\<open>robot['materials'] = collectMaterials(objectlist)\<close>.\<close>

definition assignMaterial :: "phobos_env \<Rightarrow> bobject \<Rightarrow> pyval \<Rightarrow> error + pyval" where
  "assignMaterial env obj robot =
     (if phobostype (attrs obj) = ''visual'' then
        ebind (data_materials obj) (\<lambda>ms.
          case ms of
            [] \<Rightarrow> Inr robot
          | mat # _ \<Rightarrow>
              (let matname = getObjectName env (MatBlock mat) (Some ''material'') in
               ebind (getitem robot ''materials'') (\<lambda>materials.
               ebind (py_in (PStr matname) materials) (\<lambda>known.
               ebind (if \<not> known then
                        ebind (deriveMaterial env mat) (\<lambda>m.
                          update_at robot ''materials'' (\<lambda>entries. setitem entries matname (PDict m)))
                      else Inr robot) (\<lambda>robot.
                 update_at robot ''links'' (\<lambda>links.
                   update_at links (getObjectName env (block_of (parent obj)) None) (\<lambda>link.
                     update_at link ''visual'' (\<lambda>visuals.
                       update_at visuals (getObjectName env (ObjBlock obj) None) (\<lambda>visual.
                         setitem visual ''material'' (PStr matname))))))))))
      else Inr robot)"

definition parseGroup :: "phobos_env \<Rightarrow> bgroup \<Rightarrow> pyval \<Rightarrow> error + pyval" where
  "parseGroup env g robot =
     (if length (group_objects g) > 0 \<and>
         getObjectName env (GroupBlock g) (Some ''group'') \<noteq> ''RigidBodyWorld''
      then update_at robot ''groups'' (\<lambda>entries.
             setitem entries (getObjectName env (GroupBlock g) (Some ''group'')) (deriveGroupEntry env g))
      else Inr robot)"

definition collectChains :: "phobos_env \<Rightarrow> bobject \<Rightarrow> pyval list \<Rightarrow> error + pyval list" where
  "collectChains env obj chainlist =
     (if phobostype (attrs obj) = ''link'' \<and> obj_has obj ''endChain'' then
        ebind (deriveChainEntry env obj) (\<lambda>cs. Inr (chainlist @ cs))
      else Inr chainlist)"

definition addChain :: "pyval \<Rightarrow> pyval \<Rightarrow> error + pyval" where
  "addChain chain robot =
     ebind (getitem chain ''name'') (\<lambda>n.
       update_at robot ''chains'' (\<lambda>entries. py_setitem entries n chain))"

definition parseLight :: "phobos_env \<Rightarrow> bobject \<Rightarrow> pyval \<Rightarrow> error + pyval" where
  "parseLight env obj robot =
     (if phobostype (attrs obj) = ''light'' then
        ebind (deriveLight env obj) (\<lambda>light.
          update_at robot ''lights'' (\<lambda>entries.
            setitem entries (getObjectName env (ObjBlock obj) None) (PDict light)))
      else Inr robot)"

definition empty_robot :: pydict where
  "empty_robot =
     [(PStr ''links'', PDict []), (PStr ''joints'', PDict []), (PStr ''poses'', PDict []), (PStr ''sensors'', PDict []),
      (PStr ''motors'', PDict []), (PStr ''controllers'', PDict []), (PStr ''materials'', PDict []),
      (PStr ''lights'', PDict []), (PStr ''groups'', PDict []), (PStr ''chains'', PDict [])]"

text \<open>
  Everything \<^verbatim>\<open>buildModelDictionary\<close> does before its \<^verbatim>\<open>return\<close> statement: the
  dictionary \<^verbatim>\<open>robot\<close> as it stands after \<^verbatim>\<open>robot['poses'] = deriveStoredPoses()\<close>, and
  \<^verbatim>\<open>objectlist\<close>.
\<close>

definition buildRobot :: "phobos_env \<Rightarrow> bpy \<Rightarrow> bobject \<Rightarrow> error + pyval \<times> bobject list" where
  "buildRobot env b rootobj =
     (let robot = dset ''date'' (PStr (now_strftime env)) empty_robot in
      if phobostype (attrs rootobj) \<noteq> ''link'' then Inl (Exception no_link_message)
      else
        (let robot = dset ''modelname''
                       (case map_of (items (attrs rootobj)) ''modelname'' of
                          Some v \<Rightarrow> v | None \<Rightarrow> PStr ''unnamed_robot'') robot;
             objectlist = getSelectedChildren env rootobj;
             linklist = filter (\<lambda>link. phobostype (attrs link) = ''link'') objectlist
         in
         ebind (efold (parseLink env b) linklist (PDict robot)) (\<lambda>robot.
         ebind (efold (parseGeometry env b) objectlist robot) (\<lambda>robot.
         ebind (combineCollisions robot) (\<lambda>robot.
         ebind (efold (parseSensorController env b) objectlist robot) (\<lambda>robot.
         ebind (collectMaterials env objectlist) (\<lambda>materials.
         ebind (setitem robot ''materials'' (PDict materials)) (\<lambda>robot.
         ebind (efold (assignMaterial env) objectlist robot) (\<lambda>robot.
         ebind (efold (parseGroup env) (groups b) robot) (\<lambda>robot.
         ebind (efold (collectChains env) objectlist []) (\<lambda>chainlist.
         ebind (efold addChain chainlist robot) (\<lambda>robot.
         ebind (efold (parseLight env) objectlist robot) (\<lambda>robot.
         ebind (deriveStoredPoses env b) (\<lambda>poses.
         ebind (setitem robot ''poses'' (PDict poses)) (\<lambda>robot.
           Inr (robot, objectlist))))))))))))))))"

text \<open>
  The last two lines: \<^verbatim>\<open>epsilon = 10**(-bpy.data.worlds[0].decimalPlaces)\<close> and
  \<^verbatim>\<open>return gUtils.epsilonToZero(robot, epsilon, decimalPlaces), objectlist\<close>. The name
  \<^verbatim>\<open>gUtils\<close> is read first; the module imports \<^verbatim>\<open>epsilonToZero\<close> itself, not \<^verbatim>\<open>gUtils\<close>.
\<close>

definition buildModelDictionary ::
  "phobos_env \<Rightarrow> bpy \<Rightarrow> bobject \<Rightarrow> error + pyval \<times> bobject list" where
  "buildModelDictionary env b rootobj =
     ebind (buildRobot env b rootobj) (\<lambda>ro.
       let places = decimalPlaces (world0 b);
           epsilon = (if places \<le> 0 then 10 ^ nat (- places) else 1 / 10 ^ nat places)
       in
       ebind (global_name ''gUtils'') (\<lambda>_.
         Inr (epsilonToZero env (fst ro) epsilon places, snd ro)))"

section \<open>The claims' vocabulary\<close>

text \<open>
  The following definitions are not taken from the source. They say in the specification's
  words what the source's loops are compared with.
\<close>

text \<open>The objects reached by walking up the parent links, nearest first.\<close>

fun ancestors :: "bobject \<Rightarrow> bobject list" where
  "ancestors (BObject a None) = []"
| "ancestors (BObject a (Some par)) = par # ancestors par"

definition is_list :: "pyval \<Rightarrow> bool" where
  "is_list v = (case v of PList xs \<Rightarrow> True | _ \<Rightarrow> False)"

text \<open>The object carries a \<^verbatim>\<open>'startChain'\<close> property that contains the chain name.\<close>

definition startsChain :: "pyval \<Rightarrow> bobject \<Rightarrow> bool" where
  "startsChain chainName ob =
     (case map_of (items (attrs ob)) ''startChain'' of
        None \<Rightarrow> False
      | Some sc \<Rightarrow> py_in chainName sc = Inr True)"

text \<open>Every \<^verbatim>\<open>'startChain'\<close> property above the object is a list.\<close>

definition startChain_lists :: "bobject \<Rightarrow> bool" where
  "startChain_lists obj =
     (\<forall>p \<in> set (ancestors obj).
        case map_of (items (attrs p)) ''startChain'' of None \<Rightarrow> True | Some sc \<Rightarrow> is_list sc)"

text \<open>
  The names collected from the object up to the chain's start: the \<^verbatim>\<open>name\<close> of the object
  and of every ancestor before the start, then the start's name as \<^verbatim>\<open>getObjectName\<close>
  gives it.
\<close>

definition walked_names :: "phobos_env \<Rightarrow> pyval \<Rightarrow> bobject \<Rightarrow> bobject \<Rightarrow> pyval list" where
  "walked_names env chainName obj start =
     map (\<lambda>ob. PStr (name (attrs ob)))
       (obj # takeWhile (\<lambda>p. \<not> startsChain chainName p) (ancestors obj))
     @ [PStr (getObjectName env (ObjBlock start) None)]"

definition chain_of :: "phobos_env \<Rightarrow> bobject \<Rightarrow> pyval \<Rightarrow> pyval option" where
  "chain_of env obj chainName =
     (case find (startsChain chainName) (ancestors obj) of
        None \<Rightarrow> None
      | Some start \<Rightarrow>
          Some (PDict [(PStr ''name'', chainName),
                       (PStr ''start'', PStr (getObjectName env (ObjBlock start) None)),
                       (PStr ''end'', PStr (getObjectName env (ObjBlock obj) None)),
                       (PStr ''elements'', PList (walked_names env chainName obj start))]))"







text \<open>The integer a collision entry contributes, if it has one.\<close>

definition entry_bitmask :: "pydict \<Rightarrow> pyval \<Rightarrow> int option" where
  "entry_bitmask collision collname =
     (case dict_lookup collision collname of
        None \<Rightarrow> None
      | Some entry \<Rightarrow>
          (case getitem entry ''bitmask'' of
             Inr (PInt m) \<Rightarrow> Some m
           | Inr (PBool m) \<Rightarrow> Some (of_bool m)
           | _ \<Rightarrow> None))"

text \<open>
  The bitwise OR of the bitmasks of the collision entries, entries without one skipped,
  starting from 0.
\<close>

definition or_bitmasks :: "pydict \<Rightarrow> int" where
  "or_bitmasks collision =
     fold (\<lambda>collname acc. case entry_bitmask collision collname of None \<Rightarrow> acc | Some m \<Rightarrow> or acc m)
       (map fst collision) 0"

text \<open>The link's \<^verbatim>\<open>'collision_bitmask'\<close> is the OR over its \<^verbatim>\<open>'collision'\<close> entries.\<close>

definition bitmask_combined :: "pyval \<Rightarrow> bool" where
  "bitmask_combined link =
     (case getitem link ''collision'' of
        Inr (PDict collision) \<Rightarrow>
          getitem link ''collision_bitmask'' = Inr (PInt (or_bitmasks collision))
      | _ \<Rightarrow> False)"

definition links_combined :: "pyval \<Rightarrow> bool" where
  "links_combined robot =
     (case getitem robot ''links'' of
        Inr (PDict links) \<Rightarrow> (\<forall>link \<in> ran (dict_lookup links). bitmask_combined link)
      | _ \<Rightarrow> True)"

text \<open>The links named in \<open>S\<close> have their bitmask combined.\<close>

definition combined_on :: "pyval set \<Rightarrow> pyval \<Rightarrow> bool" where
  "combined_on S links =
     (case links of
        PDict al \<Rightarrow>
          (\<forall>k \<in> S. case dict_lookup al k of None \<Rightarrow> True | Some link \<Rightarrow> bitmask_combined link)
      | _ \<Rightarrow> False)"



text \<open>A link of the built dictionary, and a link's collision section.\<close>

definition link_of :: "pyval \<Rightarrow> pyval \<Rightarrow> pyval option" where
  "link_of robot linkname =
     (case getitem robot ''links'' of Inr (PDict links) \<Rightarrow> dict_lookup links linkname | _ \<Rightarrow> None)"

definition collision_of :: "pyval \<Rightarrow> pydict option" where
  "collision_of link =
     (case getitem link ''collision'' of Inr (PDict collision) \<Rightarrow> Some collision | _ \<Rightarrow> None)"

text \<open>
  The entries of a link's \<^verbatim>\<open>'collision'\<close> section are dictionaries, and a \<^verbatim>\<open>'bitmask'\<close>
  among them is an integer (or a \<^verbatim>\<open>bool\<close>): what the loop over the entries needs in
  order not to raise.
\<close>

definition entries_typed :: "pydict \<Rightarrow> bool" where
  "entries_typed collision =
     (\<forall>kv \<in> set collision.
        hashable (fst kv) \<and>
        (case snd kv of
           PDict e \<Rightarrow>
             (case dget e ''bitmask'' of
                None \<Rightarrow> True
              | Some (PInt m) \<Rightarrow> True
              | Some (PBool m) \<Rightarrow> True
              | Some _ \<Rightarrow> False)
         | _ \<Rightarrow> False))"


section \<open>Sample data\<close>

text \<open>
  A concrete choice of the imported functions and a plain object, on which the statements
  below are instantiated.
\<close>

definition sample_env :: phobos_env where
  "sample_env =
     \<lparr> getObjectName = (\<lambda>blk t. case blk of
          ObjBlock ob \<Rightarrow> name (attrs ob) | MatBlock m \<Rightarrow> mat_name m
        | GroupBlock g \<Rightarrow> group_name g | NoBlock \<Rightarrow> []),
       getEffectiveParent = parent,
       getChildren = (\<lambda>ob. [ob]),
       getSelectedChildren = (\<lambda>ob. [ob]),
       getRoots = [],
       deriveJointType = (\<lambda>ob. ob),
       getJointConstraints = (\<lambda>ob. (PNone, PNone)),
       deriveObjectPose = (\<lambda>ob. Inr (PDict [])),
       deriveGeometry = (\<lambda>ob. Inr (PDict [])),
       yaml_load = (\<lambda>s. PDict []),
       yaml_dump = (\<lambda>v. ''{}''),
       float_of_str = (\<lambda>s. None),
       epsilonToZero = (\<lambda>v eps n. v),
       now_strftime = ''20140728_12:00'' \<rparr>"

definition sample_attrs :: obj_attrs where
  "sample_attrs =
     \<lparr> name = ''box'', phobostype = ''collision'', items = [], select = True,
       data = MeshData [], rigid_body = None, lod_levels = [], dimensions = [1, 1, 1],
       matrix_local_translation = [0, 0, 0], matrix_local_euler = [0, 0, 0], pose_bones = [] \<rparr>"

definition rigid_box :: bobject where
  "rigid_box =
     BObject (sample_attrs\<lparr>rigid_body := Some \<lparr>collision_groups = [True, False, True]\<rparr>\<rparr>) None"

definition plain_box :: bobject where
  "plain_box = BObject sample_attrs None"

definition tagged_box :: bobject where
  "tagged_box = BObject (sample_attrs\<lparr>items := [(''collision/bitmask'', PInt 5)]\<rparr>) None"

definition base_link :: bobject where
  "base_link =
     BObject (sample_attrs\<lparr>name := ''base'', phobostype := ''link'',
        items := [(''modelname'', PStr ''rover''), (''startChain'', PList [PStr ''arm_chain''])],
        pose_bones := [(''Bone'', \<lparr>rotation_euler_y = 0\<rparr>)]\<rparr>) None"

definition arm_link :: bobject where
  "arm_link =
     BObject (sample_attrs\<lparr>name := ''arm'', phobostype := ''link'',
        pose_bones := [(''Bone'', \<lparr>rotation_euler_y = 1\<rparr>)]\<rparr>) (Some base_link)"

definition hand_link :: bobject where
  "hand_link =
     BObject (sample_attrs\<lparr>name := ''hand'', phobostype := ''link'',
        items := [(''endChain'', PList [PStr ''arm_chain'', PStr ''leg_chain''])],
        pose_bones := [(''Bone'', \<lparr>rotation_euler_y = 2\<rparr>)]\<rparr>) (Some arm_link)"

definition base_collision :: bobject where
  "base_collision =
     BObject (sample_attrs\<lparr>name := ''base_col'', phobostype := ''collision'',
        rigid_body := Some \<lparr>collision_groups = [True, False, True]\<rparr>\<rparr>) (Some base_link)"

definition base_collision2 :: bobject where
  "base_collision2 =
     BObject (sample_attrs\<lparr>name := ''base_col2'', phobostype := ''collision'',
        rigid_body := Some \<lparr>collision_groups = [False, True, False]\<rparr>\<rparr>) (Some base_link)"

definition base_collision3 :: bobject where
  "base_collision3 =
     BObject (sample_attrs\<lparr>name := ''base_col3'', phobostype := ''collision''\<rparr>) (Some base_link)"

definition steel :: material where
  "steel = \<lparr> mat_name = ''steel'', mat_items = [], diffuse_intensity = 1, diffuse_color = [1, 1, 1],
      ambient = 1, specular_intensity = 1, specular_color = [1, 1, 1], emit = 0,
      specular_hardness = 50, use_transparency = False, alpha = 1, texture_slots = [] \<rparr>"

definition base_visual :: bobject where
  "base_visual =
     BObject (sample_attrs\<lparr>name := ''base_vis'', phobostype := ''visual'', data := MeshData [steel]\<rparr>)
       (Some base_link)"

definition arm_visual :: bobject where
  "arm_visual =
     BObject (sample_attrs\<lparr>name := ''arm_vis'', phobostype := ''visual'', data := MeshData [steel]\<rparr>)
       (Some arm_link)"

definition scene_list :: "bobject list" where
  "scene_list =
     [base_link, arm_link, hand_link, base_collision, base_collision2, base_collision3,
      base_visual, arm_visual]"

definition scene_env :: phobos_env where
  "scene_env = sample_env\<lparr>getSelectedChildren := (\<lambda>ob. scene_list), getChildren := (\<lambda>ob. scene_list),
      getRoots := [base_link]\<rparr>"

definition sample_bpy :: bpy where
  "sample_bpy = \<lparr> texts = [], groups = [], scene_objects = [],
      world0 = \<lparr>useObj = True, useBobj = False, useStl = False, useDae = False, decimalPlaces = 3\<rparr>,
      mode = ''OBJECT'', rotation_modes = [] \<rparr>"









definition sample_link :: pyval where
  "sample_link =
     PDict [(PStr ''name'', PStr ''base''),
            (PStr ''collision'',
             PDict [(PStr ''front'', PDict [(PStr ''name'', PStr ''front''), (PStr ''bitmask'', PInt 5)]),
                    (PStr ''cover'', PDict [(PStr ''name'', PStr ''cover'')]),
                    (PStr ''back'', PDict [(PStr ''name'', PStr ''back''), (PStr ''bitmask'', PInt 2)])])]"


section \<open>Properties\<close>

subsection \<open>Errors and dictionaries\<close>

lemma ebind_simps [simp]:
  "ebind (Inl e) f = Inl e"
  "ebind (Inr x) f = f x"
  by (simp_all add: ebind_def)

lemma ebind_eq_Inr: "ebind m f = Inr y \<longleftrightarrow> (\<exists>x. m = Inr x \<and> f x = Inr y)"
  by (cases m) simp_all

lemma efold_preserves:
  assumes "\<And>x s s'. x \<in> set xs \<Longrightarrow> I s \<Longrightarrow> f x s = Inr s' \<Longrightarrow> I s'"
    and "I s" and "efold f xs s = Inr s'"
  shows "I s'"
  using assms
proof (induction xs arbitrary: s)
  case Nil
  then show ?case by simp
next
  case (Cons x xs)
  from Cons.prems(3) obtain s1 where s1: "f x s = Inr s1" and rest: "efold f xs s1 = Inr s'"
    by (auto simp: ebind_eq_Inr)
  have s1I: "I s1" using Cons.prems(1) [OF _ Cons.prems(2) s1] by simp
  show ?case
  proof (rule Cons.IH [OF _ s1I rest])
    fix y t t'
    assume "y \<in> set xs" "I t" "f y t = Inr t'"
    then show "I t'" using Cons.prems(1) [of y t t'] by simp
  qed
qed


text \<open>A string is the same key only as itself, so string keys behave as in a plain
  association list.\<close>

lemma key_norm_PStr [simp]: "key_norm k = PStr s \<longleftrightarrow> k = PStr s"
  by (cases k) auto

lemma PStr_key_norm [simp]: "PStr s = key_norm k \<longleftrightarrow> k = PStr s"
  by (cases k) auto

lemma dict_lookup_PStr: "dict_lookup d (PStr s) = map_of d (PStr s)"
  by (induction d) (auto simp: dict_lookup_def)

lemma dict_update_PStr: "dict_update (PStr s) v d = AList.update (PStr s) v d"
  by (induction d) auto

lemma dget_map_of: "dget d k = map_of d (PStr k)"
  by (simp add: dget_def dict_lookup_PStr)

lemma dset_update: "dset k v d = AList.update (PStr k) v d"
  by (simp add: dset_def dict_update_PStr)

lemma dget_dset [simp]: "dget (dset k v d) k' = (if k' = k then Some v else dget d k')"
  by (simp add: dget_map_of dset_update update_conv')

lemma dget_Nil [simp]: "dget [] k = None"
  by (simp add: dget_map_of)

lemma dget_Cons [simp]:
  "dget ((PStr k', v) # d) k = (if k = k' then Some v else dget d k)"
  by (auto simp: dget_map_of)


lemma getitem_PDict [simp]:
  "getitem (PDict d) k = (case dget d k of None \<Rightarrow> Inl KeyError | Some v \<Rightarrow> Inr v)"
  by (simp add: getitem_def py_getitem_def dget_def)

lemma setitem_PDict [simp]: "setitem (PDict d) k v = Inr (PDict (dset k v d))"
  by (simp add: setitem_def py_setitem_def dset_def)

lemma getitem_Inr:
  assumes "getitem d k = Inr v"
  obtains al where "d = PDict al" "dget al k = Some v"
  using assms
  by (cases d)
     (auto simp: getitem_def py_getitem_def seq_at_def int_index_def dget_def split: option.splits)

lemma setitem_Inr:
  assumes "setitem d k v = Inr d'"
  obtains al where "d = PDict al" "d' = PDict (dset k v al)"
  using assms
  by (cases d) (auto simp: setitem_def py_setitem_def int_index_def dset_def)

text \<open>Keys that are values.\<close>

lemma dict_lookup_update:
  "dict_lookup (dict_update k v d) k' =
     (if key_norm k' = key_norm k then Some v else dict_lookup d k')"
  by (induction d) (auto simp: dict_lookup_def)

lemma dict_update_keys:
  "dict_lookup d k = Some x \<Longrightarrow> map fst (dict_update k v d) = map fst d"
  by (induction d) (auto simp: dict_lookup_def split: if_splits)

lemma dict_lookup_key:
  "dict_lookup d k = Some v \<Longrightarrow> \<exists>k' \<in> fst ` set d. key_norm k' = key_norm k"
  by (induction d) (auto simp: dict_lookup_def split: if_splits)

lemma dict_lookup_norm: "key_norm k = key_norm k' \<Longrightarrow> dict_lookup d k = dict_lookup d k'"
  by (simp add: dict_lookup_def)

lemma dict_lookup_own_key: "k \<in> fst ` set d \<Longrightarrow> \<exists>v. dict_lookup d k = Some v"
  by (induction d) (auto simp: dict_lookup_def)

lemma dict_lookup_values: "dict_lookup d k = Some v \<Longrightarrow> v \<in> snd ` set d"
  by (induction d) (auto simp: dict_lookup_def split: if_splits)

lemma update_val_dict:
  assumes "update_val (PDict al) k f = Inr d'"
  obtains v v' where "hashable k" "dict_lookup al k = Some v" "f v = Inr v'"
    "d' = PDict (dict_update k v' al)"
  using assms
  by (auto simp: update_val_def py_getitem_def py_setitem_def ebind_eq_Inr
      split: if_splits option.splits)

lemma update_at_Inr:
  assumes "update_at d k f = Inr d'"
  obtains al v v' where "d = PDict al" "dget al k = Some v" "f v = Inr v'"
    "d' = PDict (dset k v' al)"
proof -
  from assms obtain v where g: "py_getitem d (PStr k) = Inr v"
    by (auto simp: update_at_def update_val_def ebind_eq_Inr)
  then have "getitem d k = Inr v" by (simp add: getitem_def)
  then obtain al where al: "d = PDict al" by (rule getitem_Inr)
  from assms al obtain v v' where "dict_lookup al (PStr k) = Some v" "f v = Inr v'"
    "d' = PDict (dict_update (PStr k) v' al)"
    unfolding update_at_def by (auto elim: update_val_dict)
  with al that show ?thesis by (simp add: dget_def dset_def)
qed

lemma update_at_other:
  "update_at d k f = Inr d' \<Longrightarrow> k' \<noteq> k \<Longrightarrow> getitem d' k' = getitem d k'"
  by (erule update_at_Inr) simp

lemma setitem_other:
  "setitem d k v = Inr d' \<Longrightarrow> k' \<noteq> k \<Longrightarrow> getitem d' k' = getitem d k'"
  by (erule setitem_Inr) simp

subsection \<open>The collision bitmask\<close>

lemma fold_bits_horner:
  "fold (\<lambda>c acc. 2 * acc + (if c = CHR ''1'' then 1 else 0))
     (rev (map (\<lambda>g. if g then CHR ''1'' else CHR ''0'') gs)) (0::int)
   = horner_sum of_bool 2 gs"
  unfolding foldr_conv_fold [symmetric]
  by (induction gs) simp_all

lemma groups_bitmask_horner:
  "gs \<noteq> [] \<Longrightarrow> groups_bitmask gs = Inr (horner_sum of_bool 2 (take 16 gs))"
  by (auto simp: groups_bitmask_def int_base2_def fold_bits_horner)

lemma bit_groups:
  "bit (horner_sum of_bool (2::int) (take 16 gs)) i \<longleftrightarrow> i < 16 \<and> i < length gs \<and> gs ! i"
  by (auto simp: bit_horner_sum_bit_iff)

lemma set_specifier_other:
  "set_specifier props c s v = Inr props' \<Longrightarrow> k \<noteq> CHR ''$'' # c \<Longrightarrow>
   dget props' k = dget props k"
  by (auto simp: set_specifier_def Let_def has_key_def
      split: if_splits option.splits pyval.splits)

lemma initProperty_keeps:
  assumes "initProperty pt ig kv props = Inr props'"
    and "\<not> str_in (pt @ ''/'') (fst kv)"
    and "hd k \<noteq> CHR ''$''" "k \<noteq> []"
  shows "dget props' k = dget props k"
proof -
  have ne: "k \<noteq> CHR ''$'' # c" for c
    using assms(3,4) by (cases k) auto
  show ?thesis
    using assms(1,2) set_specifier_other [OF _ ne]
    by (auto simp: initProperty_def Let_def split: if_splits list.splits)
qed

lemma efold_initProperty_keeps:
  assumes "efold (initProperty pt ig) its props = Inr props'"
    and "\<forall>kv \<in> set its. \<not> str_in (pt @ ''/'') (fst kv)"
    and "hd k \<noteq> CHR ''$''" "k \<noteq> []"
  shows "dget props' k = dget props k"
  using assms(1,2)
proof (induction its arbitrary: props)
  case Nil
  then show ?case by simp
next
  case (Cons kv its)
  from Cons.prems(1) obtain p1 where p1: "initProperty pt ig kv props = Inr p1"
    and rest: "efold (initProperty pt ig) its p1 = Inr props'"
    by (auto simp: ebind_eq_Inr)
  have "dget p1 k = dget props k"
    using initProperty_keeps [OF p1 _ assms(3,4)] Cons.prems(2) by simp
  moreover have "dget props' k = dget p1 k"
    using Cons.IH [OF rest] Cons.prems(2) by simp
  ultimately show ?case by simp
qed

lemma initObjectProperties_no_bitmask:
  assumes "initObjectProperties env (ObjBlock obj) (Some ''collision'') ig = Inr props"
    and "\<forall>k \<in> fst ` set (items (attrs obj)). \<not> str_in ''collision/'' k"
  shows "dget props ''bitmask'' = None"
proof -
  let ?p0 = "[(PStr ''name'', PStr (getObjectName env (ObjBlock obj) (Some ''material'')))]"
  from assms(1) have e: "efold (initProperty ''collision'' ig) (items (attrs obj)) ?p0 = Inr props"
    by (simp add: initObjectProperties_def block_items_def)
  have "dget props ''bitmask'' = dget ?p0 ''bitmask''"
    by (rule efold_initProperty_keeps [OF e]) (use assms(2) in auto)
  then show ?thesis by simp
qed

lemma sample_init_collision:
  "initObjectProperties sample_env (ObjBlock (BObject (sample_attrs\<lparr>rigid_body := rb\<rparr>) None))
     (Some ''collision'') (IgnoreStr ''geometry'') = Inr [(PStr ''name'', PStr ''box'')]"
  by (simp add: initObjectProperties_def sample_env_def sample_attrs_def block_items_def)

text \<open>
  C2 (as amended). With rigid-body settings (and at least one collision group, as the host's
  array of 20 always has), \<^verbatim>\<open>deriveCollision\<close> sets \<^verbatim>\<open>'bitmask'\<close> to the integer whose bit
  \<open>i\<close> is set exactly when \<open>i < 16\<close> and collision group \<open>i\<close> is enabled. Without rigid-body
  settings the function adds no \<^verbatim>\<open>'bitmask'\<close>: the entry is whatever
  \<^verbatim>\<open>initObjectProperties\<close> derived from the custom properties, and there is none when no
  custom property key contains \<^verbatim>\<open>'collision/'\<close>.
\<close>

theorem deriveCollision_bitmask:
  assumes "initObjectProperties env (ObjBlock obj) (Some ''collision'') (IgnoreStr ''geometry'')
             = Inr props"
    and "deriveGeometry env obj = Inr g"
    and "deriveObjectPose env obj = Inr p"
  shows "case rigid_body (attrs obj) of
           Some rb \<Rightarrow>
             collision_groups rb \<noteq> [] \<longrightarrow>
             (\<exists>c b. deriveCollision env obj = Inr c \<and> dget c ''bitmask'' = Some (PInt b) \<and>
                (\<forall>i. bit b i \<longleftrightarrow>
                   i < 16 \<and> i < length (collision_groups rb) \<and> collision_groups rb ! i))
         | None \<Rightarrow>
             (\<exists>c. deriveCollision env obj = Inr c \<and>
                dget c ''bitmask'' = dget props ''bitmask'' \<and>
                ((\<forall>k \<in> fst ` set (items (attrs obj)). \<not> str_in ''collision/'' k) \<longrightarrow>
                   dget c ''bitmask'' = None))"
proof (cases "rigid_body (attrs obj)")
  case None
  then show ?thesis
    using assms initObjectProperties_no_bitmask [OF assms(1)]
    by (simp add: deriveCollision_def)
next
  case (Some rb)
  then show ?thesis
    using assms bit_groups [of "collision_groups rb"]
    by (simp add: deriveCollision_def groups_bitmask_horner)
qed

theorem deriveCollision_bitmask_witness:
  "(\<exists>c b. deriveCollision sample_env rigid_box = Inr c \<and> dget c ''bitmask'' = Some (PInt b) \<and>
      (\<forall>i. bit b i \<longleftrightarrow> i < 16 \<and> i < length [True, False, True] \<and> [True, False, True] ! i)) \<and>
   (\<exists>c. deriveCollision sample_env plain_box = Inr c \<and> dget c ''bitmask'' = None)"
proof -
  have g: "deriveGeometry sample_env ob = Inr (PDict [])"
    and p: "deriveObjectPose sample_env ob = Inr (PDict [])" for ob
    by (simp_all add: sample_env_def)
  have i1: "initObjectProperties sample_env (ObjBlock rigid_box) (Some ''collision'')
              (IgnoreStr ''geometry'') = Inr [(PStr ''name'', PStr ''box'')]"
    unfolding rigid_box_def by (rule sample_init_collision)
  have i2: "initObjectProperties sample_env (ObjBlock plain_box) (Some ''collision'')
              (IgnoreStr ''geometry'') = Inr [(PStr ''name'', PStr ''box'')]"
    using sample_init_collision [of None] by (simp add: plain_box_def sample_attrs_def)
  have "rigid_body (attrs rigid_box) = Some \<lparr>collision_groups = [True, False, True]\<rparr>"
    by (simp add: rigid_box_def sample_attrs_def)
  with deriveCollision_bitmask [OF i1 g p] have first:
    "\<exists>c b. deriveCollision sample_env rigid_box = Inr c \<and> dget c ''bitmask'' = Some (PInt b) \<and>
      (\<forall>i. bit b i \<longleftrightarrow> i < 16 \<and> i < length [True, False, True] \<and> [True, False, True] ! i)"
    by simp
  have "rigid_body (attrs plain_box) = None" "items (attrs plain_box) = []"
    by (simp_all add: plain_box_def sample_attrs_def)
  with deriveCollision_bitmask [OF i2 g p] have second:
    "\<exists>c. deriveCollision sample_env plain_box = Inr c \<and> dget c ''bitmask'' = None"
    by simp
  from first second show ?thesis by blast
qed

text \<open>
  An object without rigid-body settings that carries the custom property
  \<^verbatim>\<open>'collision/bitmask'\<close> comes back with a \<^verbatim>\<open>'bitmask'\<close> key, copied by
  \<^verbatim>\<open>initObjectProperties\<close>.
\<close>

theorem deriveCollision_bitmask_counterexample:
  "rigid_body (attrs tagged_box) = None \<and>
   deriveCollision sample_env tagged_box =
     Inr [(PStr ''name'', PStr ''box''), (PStr ''bitmask'', PInt 5),
          (PStr ''geometry'', PDict []), (PStr ''pose'', PDict [])]"
  by code_simp

subsection \<open>The root of the model and the return statement\<close>

lemma buildModelDictionary_never_returns: "buildModelDictionary env b rootobj \<noteq> Inr r"
  by (cases "buildRobot env b rootobj")
     (simp_all add: buildModelDictionary_def global_name_def module_names_def Let_def)

lemma buildModelDictionary_NameError:
  "buildRobot env b rootobj = Inr ro \<Longrightarrow>
   buildModelDictionary env b rootobj = Inl (NameError ''gUtils'')"
  by (simp add: buildModelDictionary_def global_name_def module_names_def Let_def)

text \<open>
  C1. For a root of phobostype \<^verbatim>\<open>'link'\<close> the claim wants the dictionary returned. On the
  sample scene (a root link with two further links, two collision objects and two visuals)
  everything before the \<^verbatim>\<open>return\<close> succeeds, and the \<^verbatim>\<open>return\<close> statement raises
  NameError: \<^verbatim>\<open>gUtils\<close> is not a name of the module. By
  \<open>buildModelDictionary_never_returns\<close> no input at all makes the function return.
\<close>

theorem buildModelDictionary_gUtils:
  "buildModelDictionary scene_env sample_bpy base_link = Inl (NameError ''gUtils'')"
  by code_simp

text \<open>
  C9. For a root whose phobostype is not \<^verbatim>\<open>'link'\<close>, \<^verbatim>\<open>buildModelDictionary\<close> raises the
  exception with the message "Found no 'link' object as root of the robot model." and gives
  no dictionary.
\<close>

theorem buildModelDictionary_no_link:
  "phobostype (attrs rootobj) \<noteq> ''link'' \<Longrightarrow>
   buildModelDictionary env b rootobj = Inl (Exception no_link_message)"
  by (simp add: buildModelDictionary_def buildRobot_def Let_def)

theorem buildModelDictionary_no_link_witness:
  "phobostype (attrs plain_box) \<noteq> ''link'' \<and>
   buildModelDictionary sample_env sample_bpy plain_box = Inl (Exception no_link_message)"
proof -
  have h: "phobostype (attrs plain_box) \<noteq> ''link''"
    by (simp add: plain_box_def sample_attrs_def)
  show ?thesis using h buildModelDictionary_no_link [OF h] by simp
qed

subsection \<open>Stored poses of several robots\<close>

text \<open>
  C8. The claim wants an entry for every text block whose name starts with
  \<^verbatim>\<open>'robot_poses_'\<close>. With an empty block for robot \<^verbatim>\<open>a\<close> followed by a block for robot
  \<^verbatim>\<open>b\<close>, the loop stops at the \<^verbatim>\<open>break\<close> after \<^verbatim>\<open>a\<close>: robot \<^verbatim>\<open>b\<close> is missing from the
  result, whatever the yaml loader would have made of its block.
\<close>

theorem deriveStoredPoses_break:
  "deriveStoredPoses env
     (sample_bpy\<lparr>texts := [(''robot_poses_a'', []), (''robot_poses_b'', ''home: {}'')]\<rparr>)
   = Inr [(PStr ''a'', PDict [])]"
  by (simp add: deriveStoredPoses_def readTextFile_def sample_bpy_def dset_def)

subsection \<open>Kinematic chains\<close>

lemma py_in_list: "is_list sc \<Longrightarrow> \<exists>b. py_in x sc = Inr b"
  by (cases sc) (simp_all add: is_list_def py_in_def)

lemma startChain_lists_parent:
  "startChain_lists (BObject a (Some par)) \<Longrightarrow> startChain_lists par"
  by (simp add: startChain_lists_def)

lemma closeChain_spec:
  "startChain_lists obj \<Longrightarrow>
   closeChain env chainName obj els =
     Inr (case find (startsChain chainName) (ancestors obj) of
            None \<Rightarrow> None
          | Some start \<Rightarrow>
              Some (getObjectName env (ObjBlock start) None,
                    els @ walked_names env chainName obj start))"
proof (induction env chainName obj els rule: closeChain.induct)
  case (1 env chainName a elements)
  then show ?case by simp
next
  case (2 env chainName a par elements)
  have lists: "startChain_lists par"
    using "2.prems" by (rule startChain_lists_parent)
  show ?case
  proof (cases "map_of (items (attrs par)) ''startChain''")
    case None
    then have ns: "\<not> startsChain chainName par" by (simp add: startsChain_def)
    show ?thesis
      using None ns "2.IH"(1) [OF refl None lists]
      by (simp add: walked_names_def split: option.splits)
  next
    case (Some sc)
    then have "is_list sc" using "2.prems" by (simp add: startChain_lists_def)
    then obtain found where f: "py_in chainName sc = Inr found"
      using py_in_list by blast
    show ?thesis
    proof (cases found)
      case True
      then have "startsChain chainName par" using Some f by (simp add: startsChain_def)
      then show ?thesis using Some f True by (simp add: walked_names_def)
    next
      case False
      then have ns: "\<not> startsChain chainName par" using Some f by (simp add: startsChain_def)
      show ?thesis
        using Some f False ns "2.IH"(2) [OF refl Some, of found] lists
        by (simp add: walked_names_def split: option.splits)
    qed
  qed
qed

lemma chainStep_spec:
  "startChain_lists obj \<Longrightarrow>
   chainStep env obj chainName rc =
     Inr (rc @ (case chain_of env obj chainName of None \<Rightarrow> [] | Some c \<Rightarrow> [c]))"
  by (simp add: chainStep_def closeChain_spec chain_of_def split: option.splits)

lemma efold_chainStep:
  "startChain_lists obj \<Longrightarrow>
   efold (chainStep env obj) names rc = Inr (rc @ List.map_filter (chain_of env obj) names)"
  by (induction names arbitrary: rc)
     (simp_all add: chainStep_spec List.map_filter_simps split: option.splits)

lemma deriveChainEntry_spec:
  assumes "map_of (items (attrs obj)) ''endChain'' = Some (PList names)"
    and "startChain_lists obj"
  shows "deriveChainEntry env obj = Inr (List.map_filter (chain_of env obj) names)"
  using assms by (simp add: deriveChainEntry_def py_iter_def efold_chainStep)

text \<open>
  C4. For an object whose \<^verbatim>\<open>'endChain'\<close> is a list and a chain name in that list for which
  some ancestor's \<^verbatim>\<open>'startChain'\<close> contains the name, \<^verbatim>\<open>deriveChainEntry\<close> returns a chain
  with that name whose \<^verbatim>\<open>'end'\<close> is the object's name, whose \<^verbatim>\<open>'start'\<close> is the name of the
  first such ancestor, and whose \<^verbatim>\<open>'elements'\<close> are the names of the object and of the
  ancestors below the start, in that order, followed by the start. (The \<^verbatim>\<open>'startChain'\<close>
  properties on the way up are lists, so that the membership test is defined.)
\<close>

theorem deriveChainEntry_closed_chain:
  assumes "map_of (items (attrs obj)) ''endChain'' = Some (PList names)"
    and "startChain_lists obj"
    and "chainName \<in> set names"
    and "find (startsChain chainName) (ancestors obj) = Some start"
  shows "\<exists>chains. deriveChainEntry env obj = Inr chains \<and>
           PDict [(PStr ''name'', chainName),
                  (PStr ''start'', PStr (getObjectName env (ObjBlock start) None)),
                  (PStr ''end'', PStr (getObjectName env (ObjBlock obj) None)),
                  (PStr ''elements'',
                   PList (map (\<lambda>ob. PStr (name (attrs ob)))
                            (obj # takeWhile (\<lambda>p. \<not> startsChain chainName p) (ancestors obj))
                          @ [PStr (getObjectName env (ObjBlock start) None)]))]
             \<in> set chains"
proof -
  have "chain_of env obj chainName =
          Some (PDict [(PStr ''name'', chainName),
                  (PStr ''start'', PStr (getObjectName env (ObjBlock start) None)),
                  (PStr ''end'', PStr (getObjectName env (ObjBlock obj) None)),
                  (PStr ''elements'',
                   PList (map (\<lambda>ob. PStr (name (attrs ob)))
                            (obj # takeWhile (\<lambda>p. \<not> startsChain chainName p) (ancestors obj))
                          @ [PStr (getObjectName env (ObjBlock start) None)]))])"
    using assms(4) by (simp add: chain_of_def walked_names_def)
  then show ?thesis
    using assms(3) deriveChainEntry_spec [OF assms(1,2)]
    by (force simp: List.map_filter_def)
qed

theorem deriveChainEntry_closed_chain_witness:
  "\<exists>chains. deriveChainEntry scene_env hand_link = Inr chains \<and>
     PDict [(PStr ''name'', PStr ''arm_chain''), (PStr ''start'', PStr ''base''), (PStr ''end'', PStr ''hand''),
            (PStr ''elements'', PList [PStr ''hand'', PStr ''arm'', PStr ''base''])] \<in> set chains"
proof -
  have h1: "map_of (items (attrs hand_link)) ''endChain''
              = Some (PList [PStr ''arm_chain'', PStr ''leg_chain''])"
    by (simp add: hand_link_def sample_attrs_def)
  have h2: "startChain_lists hand_link"
    by code_simp
  have h3: "PStr ''arm_chain'' \<in> set [PStr ''arm_chain'', PStr ''leg_chain'']"
    by simp
  have h4: "find (startsChain (PStr ''arm_chain'')) (ancestors hand_link) = Some base_link"
    by code_simp
  have names: "map (\<lambda>ob. PStr (name (attrs ob)))
                 (hand_link # takeWhile (\<lambda>p. \<not> startsChain (PStr ''arm_chain'') p)
                    (ancestors hand_link)) = [PStr ''hand'', PStr ''arm'']"
    by code_simp
  have gon: "getObjectName scene_env (ObjBlock base_link) None = ''base''"
    "getObjectName scene_env (ObjBlock hand_link) None = ''hand''"
    by code_simp+
  show ?thesis
    using deriveChainEntry_closed_chain [OF h1 h2 h3 h4, of scene_env]
    unfolding names gon by simp
qed

lemma chain_of_name: "chain_of env obj n = Some c \<Longrightarrow> getitem c ''name'' = Inr n"
  by (auto simp: chain_of_def split: option.splits)

text \<open>
  C5. When no ancestor of the object has a \<^verbatim>\<open>'startChain'\<close> that contains the chain name,
  the walk ends at an object without parent and the returned list holds no chain of that
  name, partial or not.
\<close>

theorem deriveChainEntry_unclosed_chain:
  assumes "map_of (items (attrs obj)) ''endChain'' = Some (PList names)"
    and "startChain_lists obj"
    and "find (startsChain chainName) (ancestors obj) = None"
  shows "\<exists>chains. deriveChainEntry env obj = Inr chains \<and>
           (\<forall>c \<in> set chains. getitem c ''name'' \<noteq> Inr chainName)"
proof -
  have none: "chain_of env obj chainName = None"
    using assms(3) by (simp add: chain_of_def)
  have "getitem c ''name'' \<noteq> Inr chainName"
    if "c \<in> set (List.map_filter (chain_of env obj) names)" for c
  proof -
    from that obtain n where "chain_of env obj n = Some c"
      by (auto simp: List.map_filter_def)
    then show ?thesis using none chain_of_name by fastforce
  qed
  then show ?thesis
    using deriveChainEntry_spec [OF assms(1,2)] by simp
qed

theorem deriveChainEntry_unclosed_chain_witness:
  "\<exists>chains. deriveChainEntry scene_env hand_link = Inr chains \<and>
     \<not> (\<exists>c \<in> set chains. getitem c ''name'' = Inr (PStr ''leg_chain''))"
proof -
  have h1: "map_of (items (attrs hand_link)) ''endChain''
              = Some (PList [PStr ''arm_chain'', PStr ''leg_chain''])"
    by (simp add: hand_link_def sample_attrs_def)
  have h2: "startChain_lists hand_link"
    by code_simp
  have h3: "find (startsChain (PStr ''leg_chain'')) (ancestors hand_link) = None"
    by code_simp
  show ?thesis
    using deriveChainEntry_unclosed_chain [OF h1 h2 h3, of scene_env] by simp
qed

subsection \<open>Materials and their users\<close>







subsection \<open>The combined collision bitmask of a link\<close>

lemma links_combined_cong:
  "getitem robot' ''links'' = getitem robot ''links'' \<Longrightarrow> links_combined robot \<Longrightarrow> links_combined robot'"
  by (simp add: links_combined_def)

lemma int_or_Inr:
  "int_or acc v = Inr bm \<Longrightarrow>
   (\<exists>m. v = PInt m \<and> bm = or acc m) \<or> (\<exists>m. v = PBool m \<and> bm = or acc (of_bool m))"
  by (cases v) (auto simp: int_or_def)

lemma int_or_Inl: "int_or acc v = Inl e \<Longrightarrow> e = TypeError"
  by (cases v) (auto simp: int_or_def)

lemma orBitmask_spec:
  assumes "orBitmask (PDict d) collname acc = Inr acc'"
  shows "acc' = (case entry_bitmask d collname of None \<Rightarrow> acc | Some m \<Rightarrow> or acc m)"
proof (cases "py_getitem (PDict d) collname")
  case (Inl e)
  with assms have "e = KeyError" "acc' = acc"
    by (auto simp: orBitmask_def split: error.splits)
  moreover from Inl \<open>e = KeyError\<close> have "dict_lookup d collname = None"
    by (auto simp: py_getitem_def split: if_splits option.splits)
  ultimately show ?thesis by (simp add: entry_bitmask_def)
next
  case (Inr entry)
  then have l: "dict_lookup d collname = Some entry"
    by (auto simp: py_getitem_def split: if_splits option.splits)
  show ?thesis
  proof (cases "getitem entry ''bitmask''")
    case (Inl e)
    with assms Inr have "acc' = acc"
      by (auto simp: orBitmask_def split: error.splits)
    with l Inl show ?thesis by (simp add: entry_bitmask_def)
  next
    case v: (Inr v)
    show ?thesis
    proof (cases "int_or acc v")
      case (Inl e)
      then have "e = TypeError" by (rule int_or_Inl)
      with assms Inr v Inl show ?thesis by (simp add: orBitmask_def)
    next
      case bm: (Inr bm)
      with assms Inr v have "acc' = bm" by (simp add: orBitmask_def)
      with int_or_Inr [OF bm] l v show ?thesis
        by (auto simp: entry_bitmask_def)
    qed
  qed
qed

lemma efold_orBitmask:
  "efold (orBitmask (PDict d)) ks acc = Inr bm \<Longrightarrow>
   bm = fold (\<lambda>collname acc. case entry_bitmask d collname of None \<Rightarrow> acc | Some m \<Rightarrow> or acc m) ks acc"
proof (induction ks arbitrary: acc)
  case Nil
  then show ?case by simp
next
  case (Cons k ks)
  from Cons.prems obtain a1 where a1: "orBitmask (PDict d) k acc = Inr a1"
    and rest: "efold (orBitmask (PDict d)) ks a1 = Inr bm"
    by (auto simp: ebind_eq_Inr)
  from orBitmask_spec [OF a1] Cons.IH [OF rest] show ?case by simp
qed

lemma collisionBitmask_spec:
  assumes "collisionBitmask link = Inr bm"
  shows "\<exists>collision. getitem link ''collision'' = Inr (PDict collision) \<and> bm = or_bitmasks collision"
proof -
  from assms obtain c where c: "getitem link ''collision'' = Inr c"
    and e: "(case c of PDict d \<Rightarrow> efold (orBitmask c) (map fst d) 0 | _ \<Rightarrow> Inl TypeError) = Inr bm"
    by (auto simp: collisionBitmask_def ebind_eq_Inr)
  from e obtain d where d: "c = PDict d"
    by (cases c) simp_all
  with e have "efold (orBitmask (PDict d)) (map fst d) 0 = Inr bm"
    by simp
  from efold_orBitmask [OF this] c d show ?thesis
    by (simp add: or_bitmasks_def)
qed

lemma combineLink_step:
  assumes "combineLink linkname (PDict al) = Inr links'"
  obtains link link' where "dict_lookup al linkname = Some link"
    "links' = PDict (dict_update linkname link' al)" "bitmask_combined link'"
proof -
  from assms obtain link link' where al: "dict_lookup al linkname = Some link"
    and f: "ebind (collisionBitmask link)
              (\<lambda>bitmask. setitem link ''collision_bitmask'' (PInt bitmask)) = Inr link'"
    and l': "links' = PDict (dict_update linkname link' al)"
    unfolding combineLink_def by (auto elim: update_val_dict)
  from f obtain bm where bm: "collisionBitmask link = Inr bm"
    and s: "setitem link ''collision_bitmask'' (PInt bm) = Inr link'"
    by (auto simp: ebind_eq_Inr)
  from collisionBitmask_spec [OF bm] obtain collision
    where c: "getitem link ''collision'' = Inr (PDict collision)" "bm = or_bitmasks collision"
    by blast
  have "getitem link' ''collision'' = getitem link ''collision''"
    using setitem_other [OF s] by simp
  moreover have "getitem link' ''collision_bitmask'' = Inr (PInt bm)"
    using s by (auto elim: setitem_Inr)
  ultimately have "bitmask_combined link'"
    using c by (simp add: bitmask_combined_def)
  with al l' that show ?thesis by blast
qed

lemma efold_combineLink:
  assumes "efold combineLink ks (PDict al) = Inr links'"
    and "combined_on S (PDict al)"
  shows "\<exists>al'. links' = PDict al' \<and> map fst al' = map fst al \<and>
           combined_on (S \<union> {k. \<exists>k' \<in> set ks. key_norm k = key_norm k'}) links'"
  using assms
proof (induction ks arbitrary: al S)
  case Nil
  then show ?case by auto
next
  case (Cons k ks)
  from Cons.prems(1) obtain l1 where l1: "combineLink k (PDict al) = Inr l1"
    and rest: "efold combineLink ks l1 = Inr links'"
    by (auto simp: ebind_eq_Inr)
  from l1 obtain link link' where al: "dict_lookup al k = Some link"
    "l1 = PDict (dict_update k link' al)" "bitmask_combined link'"
    by (rule combineLink_step)
  let ?S1 = "S \<union> {j. key_norm j = key_norm k}"
  have c1: "combined_on ?S1 (PDict (dict_update k link' al))"
    using Cons.prems(2) al(3)
    by (auto simp: combined_on_def dict_lookup_update split: option.splits)
  have keys: "map fst (dict_update k link' al) = map fst al"
    using al(1) by (rule dict_update_keys)
  from Cons.IH [OF rest [unfolded al(2)] c1] keys obtain al' where
    "links' = PDict al'" "map fst al' = map fst al"
    "combined_on (?S1 \<union> {j. \<exists>k' \<in> set ks. key_norm j = key_norm k'}) links'"
    by auto
  moreover have "?S1 \<union> {j. \<exists>k' \<in> set ks. key_norm j = key_norm k'}
                 = S \<union> {j. \<exists>k' \<in> set (k # ks). key_norm j = key_norm k'}"
    by auto
  ultimately show ?case by simp
qed

lemma combineCollisions_links_combined:
  assumes "combineCollisions robot = Inr robot'"
  shows "links_combined robot'"
proof -
  from assms obtain r links links' where r: "robot = PDict r" "dget r ''links'' = Some links"
    and f: "(case links of PDict d \<Rightarrow> efold combineLink (map fst d) links | _ \<Rightarrow> Inl TypeError)
              = Inr links'"
    and r': "robot' = PDict (dset ''links'' links' r)"
    unfolding combineCollisions_def by (erule update_at_Inr)
  from f obtain d where d: "links = PDict d"
    and e: "efold combineLink (map fst d) (PDict d) = Inr links'"
    by (cases links) simp_all
  have "combined_on {} (PDict d)" by (simp add: combined_on_def)
  from efold_combineLink [OF e this] obtain d' where d': "links' = PDict d'"
    and c: "combined_on {k. \<exists>k' \<in> set (map fst d). key_norm k = key_norm k'} links'"
    and k: "map fst d' = map fst d"
    by auto
  have "bitmask_combined link" if "link \<in> ran (dict_lookup d')" for link
  proof -
    from that obtain ln where ln: "dict_lookup d' ln = Some link" by (auto simp: ran_def)
    then obtain k' where "k' \<in> fst ` set d'" "key_norm k' = key_norm ln"
      using dict_lookup_key by blast
    then have "\<exists>k' \<in> set (map fst d). key_norm ln = key_norm k'"
      using k by (metis image_set)
    with c d' ln show ?thesis by (auto simp: combined_on_def)
  qed
  then show ?thesis
    using r' d' by (simp add: links_combined_def)
qed

lemma links_combined_update_at:
  "update_at robot k f = Inr robot' \<Longrightarrow> k \<noteq> ''links'' \<Longrightarrow> links_combined robot \<Longrightarrow>
   links_combined robot'"
  using update_at_other [of robot k f robot' "''links''"] by (auto intro: links_combined_cong)

lemma links_combined_setitem:
  "setitem robot k v = Inr robot' \<Longrightarrow> k \<noteq> ''links'' \<Longrightarrow> links_combined robot \<Longrightarrow>
   links_combined robot'"
  using setitem_other [of robot k v robot' "''links''"] by (auto intro: links_combined_cong)

lemma ran_update_subset: "ran (dict_lookup (dict_update k v al)) \<subseteq> insert v (ran (dict_lookup al))"
  by (auto simp: dict_lookup_update ran_def split: if_splits)

lemma links_combined_visual:
  assumes "update_at robot ''links'' (\<lambda>links.
             update_at links pn (\<lambda>link. update_at link ''visual'' g)) = Inr robot'"
    and "links_combined robot"
  shows "links_combined robot'"
proof -
  from assms(1) obtain r links links' where r: "robot = PDict r" "dget r ''links'' = Some links"
    and inner: "update_at links pn (\<lambda>link. update_at link ''visual'' g) = Inr links'"
    and r': "robot' = PDict (dset ''links'' links' r)"
    by (erule update_at_Inr)
  from inner obtain al link link' where al: "links = PDict al" "dget al pn = Some link"
    and v: "update_at link ''visual'' g = Inr link'"
    and l': "links' = PDict (dset pn link' al)"
    by (erule update_at_Inr)
  have old: "\<forall>l \<in> ran (dict_lookup al). bitmask_combined l"
    using assms(2) r al(1) by (simp add: links_combined_def)
  then have "bitmask_combined link"
    using al(2) by (auto simp: ran_def dget_def)
  moreover have "getitem link' ''collision'' = getitem link ''collision''"
    "getitem link' ''collision_bitmask'' = getitem link ''collision_bitmask''"
    using update_at_other [OF v] by simp_all
  ultimately have "bitmask_combined link'"
    by (auto simp: bitmask_combined_def split: sum.splits pyval.splits)
  with old have "\<forall>l \<in> ran (dict_lookup (dset pn link' al)). bitmask_combined l"
    using ran_update_subset [of "PStr pn" link' al] by (auto simp: dset_def)
  then show ?thesis
    using r' l' by (simp add: links_combined_def)
qed

lemma parseSensorController_links:
  "parseSensorController env b obj robot = Inr robot' \<Longrightarrow> links_combined robot \<Longrightarrow>
   links_combined robot'"
  by (auto simp: parseSensorController_def Let_def ebind_eq_Inr split: if_splits
      elim!: links_combined_update_at)

lemma assignMaterial_links:
  assumes "assignMaterial env obj robot = Inr robot'" and "links_combined robot"
  shows "links_combined robot'"
proof (cases "phobostype (attrs obj) = ''visual''")
  case False
  then show ?thesis using assms by (simp add: assignMaterial_def)
next
  case True
  with assms(1) obtain ms where ms: "data_materials obj = Inr ms"
    and rest: "(case ms of
            [] \<Rightarrow> Inr robot
          | mat # _ \<Rightarrow>
              (let matname = getObjectName env (MatBlock mat) (Some ''material'') in
               ebind (getitem robot ''materials'') (\<lambda>materials.
               ebind (py_in (PStr matname) materials) (\<lambda>known.
               ebind (if \<not> known then
                        ebind (deriveMaterial env mat) (\<lambda>m.
                          update_at robot ''materials'' (\<lambda>entries. setitem entries matname (PDict m)))
                      else Inr robot) (\<lambda>robot.
                 update_at robot ''links'' (\<lambda>links.
                   update_at links (getObjectName env (block_of (parent obj)) None) (\<lambda>link.
                     update_at link ''visual'' (\<lambda>visuals.
                       update_at visuals (getObjectName env (ObjBlock obj) None) (\<lambda>visual.
                         setitem visual ''material'' (PStr matname))))))))))
          = Inr robot'"
    by (auto simp: assignMaterial_def ebind_eq_Inr)
  show ?thesis
  proof (cases ms)
    case Nil
    then show ?thesis using rest assms(2) by simp
  next
    case (Cons mat ms')
    with rest obtain robot1 where
      r1: "robot1 = robot \<or> (\<exists>f. update_at robot ''materials'' f = Inr robot1)"
      and upd: "update_at robot1 ''links'' (\<lambda>links.
                   update_at links (getObjectName env (block_of (parent obj)) None) (\<lambda>link.
                     update_at link ''visual'' (\<lambda>visuals.
                       update_at visuals (getObjectName env (ObjBlock obj) None) (\<lambda>visual.
                         setitem visual ''material''
                           (PStr (getObjectName env (MatBlock mat) (Some ''material''))))))) = Inr robot'"
      by (auto simp: Let_def ebind_eq_Inr split: if_splits)
    from r1 assms(2) have "links_combined robot1"
      by (auto elim: links_combined_update_at)
    with upd show ?thesis by (rule links_combined_visual)
  qed
qed

lemma parseGroup_links:
  "parseGroup env g robot = Inr robot' \<Longrightarrow> links_combined robot \<Longrightarrow> links_combined robot'"
  by (auto simp: parseGroup_def split: if_splits elim!: links_combined_update_at)

lemma addChain_links:
  "addChain chain robot = Inr robot' \<Longrightarrow> links_combined robot \<Longrightarrow> links_combined robot'"
  by (auto simp: addChain_def ebind_eq_Inr elim!: links_combined_update_at)

lemma parseLight_links:
  "parseLight env obj robot = Inr robot' \<Longrightarrow> links_combined robot \<Longrightarrow> links_combined robot'"
  by (auto simp: parseLight_def ebind_eq_Inr split: if_splits elim!: links_combined_update_at)

lemma buildRobot_links_combined:
  assumes "buildRobot env b rootobj = Inr (robot, objectlist)"
  shows "links_combined robot"
proof -
  from assms obtain r2 r3 r4 materials r5 r6 r7 chainlist r8 r9 poses where
        c: "combineCollisions r2 = Inr r3"
    and s4: "efold (parseSensorController env b) objectlist r3 = Inr r4"
    and s5: "setitem r4 ''materials'' (PDict materials) = Inr r5"
    and s6: "efold (assignMaterial env) objectlist r5 = Inr r6"
    and s7: "efold (parseGroup env) (groups b) r6 = Inr r7"
    and s8: "efold addChain chainlist r7 = Inr r8"
    and s9: "efold (parseLight env) objectlist r8 = Inr r9"
    and s10: "setitem r9 ''poses'' (PDict poses) = Inr robot"
    by (auto simp: buildRobot_def Let_def ebind_eq_Inr split: if_splits)
  have "links_combined r3" using c by (rule combineCollisions_links_combined)
  then have "links_combined r4"
    using s4 by (auto intro: efold_preserves [where I = links_combined] parseSensorController_links)
  then have "links_combined r5"
    using s5 by (auto elim: links_combined_setitem)
  then have "links_combined r6"
    using s6 by (auto intro: efold_preserves [where I = links_combined] assignMaterial_links)
  then have "links_combined r7"
    using s7 by (auto intro: efold_preserves [where I = links_combined] parseGroup_links)
  then have "links_combined r8"
    using s8 by (auto intro: efold_preserves [where I = links_combined] addChain_links)
  then have "links_combined r9"
    using s9 by (auto intro: efold_preserves [where I = links_combined] parseLight_links)
  then show ?thesis
    using s10 by (auto elim: links_combined_setitem)
qed

lemma or_bitmasks_none:
  "\<forall>collname \<in> fst ` set collision. entry_bitmask collision collname = None \<Longrightarrow>
   or_bitmasks collision = 0"
proof -
  have "\<forall>k \<in> set ks. entry_bitmask collision k = None \<Longrightarrow>
        fold (\<lambda>collname acc. case entry_bitmask collision collname of None \<Rightarrow> acc | Some m \<Rightarrow> or acc m)
          ks acc = acc" for ks acc
    by (induction ks arbitrary: acc) simp_all
  then show "\<forall>collname \<in> fst ` set collision. entry_bitmask collision collname = None \<Longrightarrow>
   or_bitmasks collision = 0"
    by (simp add: or_bitmasks_def)
qed

text \<open>
  The loop over a link's collision entries returns: an entry without \<^verbatim>\<open>'bitmask'\<close> raises
  the KeyError that the loop catches, and the bitmask stays as it is.
\<close>

lemma orBitmask_total:
  assumes "entries_typed d" and "collname \<in> fst ` set d"
  shows "orBitmask (PDict d) collname acc =
           Inr (case entry_bitmask d collname of None \<Rightarrow> acc | Some m \<Rightarrow> or acc m)"
proof -
  from assms have h: "hashable collname"
    by (auto simp: entries_typed_def)
  from assms(2) obtain entry where l: "dict_lookup d collname = Some entry"
    using dict_lookup_own_key by blast
  then have "entry \<in> snd ` set d" by (rule dict_lookup_values)
  then obtain kv where kv: "kv \<in> set d" "snd kv = entry" by auto
  with assms(1) have t: "case entry of
           PDict e \<Rightarrow>
             (case dget e ''bitmask'' of
                None \<Rightarrow> True
              | Some (PInt m) \<Rightarrow> True
              | Some (PBool m) \<Rightarrow> True
              | Some _ \<Rightarrow> False)
         | _ \<Rightarrow> False"
    unfolding entries_typed_def by blast
  then obtain e where e: "entry = PDict e"
    by (cases entry) simp_all
  have g: "py_getitem (PDict d) collname = Inr (PDict e)"
    using h l e by (simp add: py_getitem_def)
  show ?thesis
  proof (cases "dget e ''bitmask''")
    case None
    then show ?thesis
      using g l e by (simp add: orBitmask_def entry_bitmask_def)
  next
    case (Some v)
    with t e consider m where "v = PInt m" | m where "v = PBool m"
      by (cases v) simp_all
    then show ?thesis
      using g l e Some by cases (simp_all add: orBitmask_def entry_bitmask_def int_or_def)
  qed
qed

lemma efold_orBitmask_total:
  assumes "entries_typed d" and "set ks \<subseteq> fst ` set d"
  shows "efold (orBitmask (PDict d)) ks acc =
           Inr (fold (\<lambda>collname acc. case entry_bitmask d collname of None \<Rightarrow> acc
                                      | Some m \<Rightarrow> or acc m) ks acc)"
  using assms(2)
proof (induction ks arbitrary: acc)
  case Nil
  then show ?case by simp
next
  case (Cons k ks)
  then show ?case
    using orBitmask_total [OF assms(1), of k acc] by simp
qed

lemma collisionBitmask_total:
  assumes "getitem link ''collision'' = Inr (PDict collision)" and "entries_typed collision"
  shows "collisionBitmask link = Inr (or_bitmasks collision)"
  using assms efold_orBitmask_total [OF assms(2), of "map fst collision" 0]
  by (simp add: collisionBitmask_def or_bitmasks_def)

text \<open>
  C3. The loop that combines a link's collision information returns the bitwise OR of the
  \<^verbatim>\<open>'bitmask'\<close> values of the link's collision entries, started from 0 and with the
  entries that lack a \<^verbatim>\<open>'bitmask'\<close> key skipped (first part; the entries are dictionaries
  and their bitmasks integers). In the dictionary that \<^verbatim>\<open>buildModelDictionary\<close> has built
  when it reaches its \<^verbatim>\<open>return\<close>, every link's \<^verbatim>\<open>'collision_bitmask'\<close> is that value for
  the link's \<^verbatim>\<open>'collision'\<close> section, and 0 when no entry has a bitmask (second part).
\<close>

theorem buildRobot_collision_bitmask:
  "(getitem link0 ''collision'' = Inr (PDict collision0) \<longrightarrow> entries_typed collision0 \<longrightarrow>
      collisionBitmask link0 = Inr (or_bitmasks collision0)) \<and>
   (buildRobot env b rootobj = Inr (robot, objectlist) \<longrightarrow>
    getitem robot ''links'' = Inr (PDict links) \<longrightarrow>
    dict_lookup links linkname = Some link \<longrightarrow>
      (\<exists>collision. getitem link ''collision'' = Inr (PDict collision) \<and>
         getitem link ''collision_bitmask'' = Inr (PInt (or_bitmasks collision)) \<and>
         ((\<forall>collname \<in> fst ` set collision. entry_bitmask collision collname = None) \<longrightarrow>
            getitem link ''collision_bitmask'' = Inr (PInt 0))))"
proof (intro conjI impI)
  assume "getitem link0 ''collision'' = Inr (PDict collision0)" "entries_typed collision0"
  then show "collisionBitmask link0 = Inr (or_bitmasks collision0)"
    by (rule collisionBitmask_total)
next
  assume built: "buildRobot env b rootobj = Inr (robot, objectlist)"
    and l: "getitem robot ''links'' = Inr (PDict links)"
    and k: "dict_lookup links linkname = Some link"
  have "links_combined robot" using built by (rule buildRobot_links_combined)
  then have "bitmask_combined link"
    using l k by (auto simp: links_combined_def ran_def)
  then show "\<exists>collision. getitem link ''collision'' = Inr (PDict collision) \<and>
         getitem link ''collision_bitmask'' = Inr (PInt (or_bitmasks collision)) \<and>
         ((\<forall>collname \<in> fst ` set collision. entry_bitmask collision collname = None) \<longrightarrow>
            getitem link ''collision_bitmask'' = Inr (PInt 0))"
    using or_bitmasks_none
    by (auto simp: bitmask_combined_def split: sum.splits pyval.splits)
qed

text \<open>
  On the sample link the entry \<^verbatim>\<open>'cover'\<close> has no bitmask and the loop returns
  \<open>5 OR 2 = 7\<close>. In the sample scene the link \<^verbatim>\<open>'base'\<close> carries three collision objects,
  the third without rigid-body settings and so without bitmask, and gets 7 as well.
\<close>

lemma link_of_Some:
  assumes "link_of robot k = Some link"
  obtains links where "getitem robot ''links'' = Inr (PDict links)" "dict_lookup links k = Some link"
  using assms by (auto simp: link_of_def split: sum.splits pyval.splits)

lemma collision_of_Some:
  "collision_of link = Some collision \<Longrightarrow> getitem link ''collision'' = Inr (PDict collision)"
  by (auto simp: collision_of_def split: sum.splits pyval.splits)

theorem buildRobot_collision_bitmask_witness:
  "collisionBitmask sample_link = Inr 7 \<and>
   (\<exists>robot objectlist links link collision.
      buildRobot scene_env sample_bpy base_link = Inr (robot, objectlist) \<and>
      getitem robot ''links'' = Inr (PDict links) \<and>
      dict_lookup links (PStr ''base'') = Some link \<and>
      getitem link ''collision'' = Inr (PDict collision) \<and>
      map fst collision = [PStr ''base_col'', PStr ''base_col2'', PStr ''base_col3''] \<and>
      entry_bitmask collision (PStr ''base_col3'') = None \<and>
      getitem link ''collision_bitmask'' = Inr (PInt (or_bitmasks collision)) \<and>
      or_bitmasks collision = 7)"
proof -
  let ?coll = "[(PStr ''front'', PDict [(PStr ''name'', PStr ''front''), (PStr ''bitmask'', PInt 5)]),
                (PStr ''cover'', PDict [(PStr ''name'', PStr ''cover'')]),
                (PStr ''back'', PDict [(PStr ''name'', PStr ''back''), (PStr ''bitmask'', PInt 2)])]"
  have g0: "getitem sample_link ''collision'' = Inr (PDict ?coll)"
    by (simp add: sample_link_def)
  have t0: "entries_typed ?coll"
    by (simp add: entries_typed_def)
  have v0: "or_bitmasks ?coll = 7"
    by code_simp
  from buildRobot_collision_bitmask [of sample_link ?coll] g0 t0 v0
  have first: "collisionBitmask sample_link = Inr 7"
    by simp
  have "case buildRobot scene_env sample_bpy base_link of
          Inl e \<Rightarrow> False
        | Inr ro \<Rightarrow>
            (case link_of (fst ro) (PStr ''base'') of
               None \<Rightarrow> False
             | Some link \<Rightarrow>
                 getitem link ''collision_bitmask'' = Inr (PInt 7) \<and>
                 (case collision_of link of
                    None \<Rightarrow> False
                  | Some collision \<Rightarrow>
                      map fst collision
                        = [PStr ''base_col'', PStr ''base_col2'', PStr ''base_col3''] \<and>
                      entry_bitmask collision (PStr ''base_col3'') = None))"
    by code_simp
  then obtain robot objectlist link collision where
        h1: "buildRobot scene_env sample_bpy base_link = Inr (robot, objectlist)"
    and lo: "link_of robot (PStr ''base'') = Some link"
    and h4: "getitem link ''collision_bitmask'' = Inr (PInt 7)"
    and co: "collision_of link = Some collision"
    and h5: "map fst collision = [PStr ''base_col'', PStr ''base_col2'', PStr ''base_col3'']"
            "entry_bitmask collision (PStr ''base_col3'') = None"
    by (cases "buildRobot scene_env sample_bpy base_link")
       (auto split: option.splits)
  from lo obtain links where
        h2: "getitem robot ''links'' = Inr (PDict links)"
    and h3: "dict_lookup links (PStr ''base'') = Some link"
    by (rule link_of_Some)
  from co have c0: "getitem link ''collision'' = Inr (PDict collision)"
    by (rule collision_of_Some)
  from buildRobot_collision_bitmask [of _ _ scene_env sample_bpy base_link robot objectlist
      links "PStr ''base''" link] h1 h2 h3 c0
  have c2: "getitem link ''collision_bitmask'' = Inr (PInt (or_bitmasks collision))"
    by auto
  from c2 h4 have c3: "or_bitmasks collision = 7" by simp
  have "\<exists>robot objectlist links link collision.
      buildRobot scene_env sample_bpy base_link = Inr (robot, objectlist) \<and>
      getitem robot ''links'' = Inr (PDict links) \<and>
      dict_lookup links (PStr ''base'') = Some link \<and>
      getitem link ''collision'' = Inr (PDict collision) \<and>
      map fst collision = [PStr ''base_col'', PStr ''base_col2'', PStr ''base_col3''] \<and>
      entry_bitmask collision (PStr ''base_col3'') = None \<and>
      getitem link ''collision_bitmask'' = Inr (PInt (or_bitmasks collision)) \<and>
      or_bitmasks collision = 7"
    by (rule exI [of _ robot], rule exI [of _ objectlist], rule exI [of _ links],
        rule exI [of _ link], rule exI [of _ collision])
       (simp add: h1 h2 h3 c0 h5 h4 c3)
  with first show ?thesis by simp
qed

subsection \<open>Storing and reloading poses\<close>







end
